theory Spec2Isabelle
  imports Complex_Main "HOL-Library.Sublist"
begin

section \<open>Conventions\<close>

text \<open>
  The program is a React front end written in TypeScript.  Its strings are modelled as
  \<^typ>\<open>string\<close>: one \<^typ>\<open>char\<close> stands for one code unit of the range 0..255, and
  \<open>length\<close> is the \<open>.length\<close> of the source.  An optional property (\<open>actor?: string\<close>) is an
  \<open>option\<close>, \<open>None\<close> being \<open>undefined\<close>.  Numbers that the code only passes on (coordinates,
  match scores) are idealised as \<^typ>\<open>real\<close>.  The user-facing messages of the source are
  Russian sentences; they are represented by the constructors of \<open>message\<close> below.

  Everything that the program reaches through a library or over the network is a parameter
  of the model: the HTTP \<open>fetch\<close>, the ELK layout call, the Fuse search and the printing of a
  floating-point number inside a template string.
\<close>

section \<open>Data model (\<open>types.ts\<close>, React Flow nodes and edges)\<close>

record FlowNode =
  fn_id :: string
  fn_label :: string
  fn_type :: "string option"
  fn_actor :: "string option"
  fn_sourceSpan :: "(real \<times> real) option"

record FlowEdge =
  fe_from :: string
  fe_to :: string
  fe_label :: "string option"

record FlowLane =
  fl_id :: string
  fl_label :: string
  fl_nodes :: "string list"

record FlowData =
  fd_nodes :: "FlowNode list"
  fd_edges :: "FlowEdge list"
  fd_lanes :: "FlowLane list option"

text \<open>The element \<open><CustomNodeContent label actor isAction />\<close>, kept as its props.\<close>

record CustomNodeContent =
  cnc_label :: string
  cnc_actor :: "string option"
  cnc_isAction :: bool

record NodeData =
  nd_label :: CustomNodeContent
  nd_text :: string
  nd_actor :: "string option"
  nd_isAction :: "bool option"
  nd_sourceSpan :: "(real \<times> real) option"

text \<open>A coordinate read from the layout result may be \<open>undefined\<close>.\<close>

record XYPosition =
  pos_x :: "real option"
  pos_y :: "real option"

record NodeStyle =
  st_backgroundColor :: string
  st_borderColor :: string
  st_color :: string
  st_borderRadius :: nat
  st_width :: nat
  st_textAlign :: string
  st_padding :: nat

record RFNode =
  rf_id :: string
  rf_type :: string
  rf_data :: NodeData
  rf_position :: XYPosition
  rf_style :: NodeStyle

datatype MarkerType = Arrow | ArrowClosed

record EdgeMarker =
  mk_type :: MarkerType
  mk_color :: string

record LabelBgStyle =
  bg_fill :: string
  bg_stroke :: string
  bg_fillOpacity :: real

record Edge =
  re_id :: string
  re_source :: string
  re_target :: string
  re_label :: "string option"
  re_type :: string
  re_animated :: bool
  re_markerEnd :: EdgeMarker
  re_style_stroke :: string
  re_labelBgStyle :: LabelBgStyle
  re_labelStyle_fill :: string

section \<open>Configuration constants of \<open>App.tsx\<close>\<close>

definition NODE_WIDTH :: nat where "NODE_WIDTH = 180"
definition NODE_HEIGHT :: nat where "NODE_HEIGHT = 60"
definition COLOR_PRIMARY :: string where "COLOR_PRIMARY = ''#2c3e50''"
definition COLOR_SECONDARY :: string where "COLOR_SECONDARY = ''#34495e''"
definition COLOR_ACTION :: string where "COLOR_ACTION = ''#f39c12''"
definition COLOR_DECISION :: string where "COLOR_DECISION = ''#ecf0f1''"
definition COLOR_DECISION_BORDER :: string where "COLOR_DECISION_BORDER = ''#bdc3c7''"

text \<open>
  \<open>const API_URL = import.meta.env.VITE_API_URL || "http://127.0.0.1:8000"\<close>: the build-time
  variable is a parameter; an unset or empty variable is falsy.
\<close>

definition API_URL :: "string option \<Rightarrow> string" where
  "API_URL env = (case env of None \<Rightarrow> ''http://127.0.0.1:8000''
                  | Some u \<Rightarrow> if u = [] then ''http://127.0.0.1:8000'' else u)"

section \<open>JavaScript primitives used by the code\<close>

text \<open>Truthiness of an optional string: \<open>undefined\<close> and \<open>""\<close> are falsy.\<close>

definition truthy :: "string option \<Rightarrow> bool" where
  "truthy v = (case v of None \<Rightarrow> False | Some t \<Rightarrow> t \<noteq> [])"

text \<open>Truthiness of an optional boolean (\<open>isAction?: boolean\<close>).\<close>

definition truthy_bool :: "bool option \<Rightarrow> bool" where
  "truthy_bool v = (case v of None \<Rightarrow> False | Some b \<Rightarrow> b)"

text \<open>The decimal numeral that a template string prints for an array index.\<close>

definition digit_char :: "nat \<Rightarrow> char" where
  "digit_char d = ''0123456789'' ! d"

function index_to_string :: "nat \<Rightarrow> string" where
  "index_to_string n =
     (if n < 10 then [digit_char n]
      else index_to_string (n div 10) @ [digit_char (n mod 10)])"
  by pat_completeness auto
termination
  by (relation "measure (\<lambda>n. n)") auto

declare index_to_string.simps [simp del]

section \<open>\<open>processText\<close>: mapping the backend response\<close>

text \<open>\<open>data.nodes.map((node) => ...)\<close>, lines 125 to 157 of \<open>App.tsx\<close>.\<close>

definition reactFlowNode :: "FlowNode \<Rightarrow> RFNode" where
  "reactFlowNode node =
     (let isAction = (fn_type node = Some ''action'' \<and> truthy (fn_actor node));
          labelText = fn_label node
      in \<lparr>rf_id = fn_id node,
          rf_type = ''default'',
          rf_data = \<lparr>nd_label = \<lparr>cnc_label = labelText, cnc_actor = fn_actor node,
                                  cnc_isAction = isAction\<rparr>,
                     nd_text = labelText,
                     nd_actor = fn_actor node,
                     nd_isAction = Some isAction,
                     nd_sourceSpan = fn_sourceSpan node\<rparr>,
          rf_position = \<lparr>pos_x = Some 0, pos_y = Some 0\<rparr>,
          rf_style = \<lparr>st_backgroundColor = (if isAction then COLOR_ACTION else COLOR_DECISION),
                      st_borderColor = (if isAction then COLOR_ACTION else COLOR_DECISION_BORDER),
                      st_color = (if isAction then ''#ffffff'' else COLOR_PRIMARY),
                      st_borderRadius = 8,
                      st_width = NODE_WIDTH,
                      st_textAlign = ''center'',
                      st_padding = 0\<rparr>\<rparr>)"

definition reactFlowNodes :: "FlowData \<Rightarrow> RFNode list" where
  "reactFlowNodes data = map reactFlowNode (fd_nodes data)"

text \<open>\<open>data.edges.map((edge, i) => ...)\<close>, lines 159 to 174.\<close>

definition reactFlowEdge :: "nat \<Rightarrow> FlowEdge \<Rightarrow> Edge" where
  "reactFlowEdge i edge =
     \<lparr>re_id = ''e-'' @ fe_from edge @ ''-'' @ fe_to edge @ ''-'' @ index_to_string i,
      re_source = fe_from edge,
      re_target = fe_to edge,
      re_label = fe_label edge,
      re_type = ''smoothstep'',
      re_animated = True,
      re_markerEnd = \<lparr>mk_type = ArrowClosed, mk_color = COLOR_SECONDARY\<rparr>,
      re_style_stroke = COLOR_SECONDARY,
      re_labelBgStyle = \<lparr>bg_fill = ''#fff'', bg_stroke = COLOR_DECISION_BORDER,
                          bg_fillOpacity = 7 / 10\<rparr>,
      re_labelStyle_fill = COLOR_PRIMARY\<rparr>"

definition reactFlowEdges :: "FlowData \<Rightarrow> Edge list" where
  "reactFlowEdges data = map (\<lambda>(i, edge). reactFlowEdge i edge) (enumerate 0 (fd_edges data))"

text \<open>
  \<open>String.prototype.trim\<close>.  The white space and line terminator code units of ECMAScript
  in the range of \<^typ>\<open>char\<close>: TAB, LF, VT, FF, CR, SP and NBSP.
\<close>

definition is_whitespace :: "char \<Rightarrow> bool" where
  "is_whitespace c = ((of_char c :: nat) \<in> {9, 10, 11, 12, 13, 32, 160})"

definition trim :: "string \<Rightarrow> string" where
  "trim s = rev (dropWhile is_whitespace (rev (dropWhile is_whitespace s)))"

text \<open>\<open>Array.prototype.join\<close> on a list of strings.\<close>

fun join :: "string \<Rightarrow> string list \<Rightarrow> string" where
  "join sep [] = []"
| "join sep [x] = x"
| "join sep (x # y # ys) = x @ sep @ join sep (y # ys)"

text \<open>
  \<open>String.prototype.indexOf\<close>: the first position at which the needle occurs, or \<open>-1\<close>.
\<close>

fun indexOf_from :: "nat \<Rightarrow> string \<Rightarrow> string \<Rightarrow> int" where
  "indexOf_from k [] needle = (if needle = [] then int k else - 1)"
| "indexOf_from k (c # cs) needle =
     (if prefix needle (c # cs) then int k else indexOf_from (Suc k) cs needle)"

definition indexOf :: "string \<Rightarrow> string \<Rightarrow> int" where
  "indexOf s needle = indexOf_from 0 s needle"

text \<open>
  \<open>String.prototype.substring\<close> on integer arguments: both are clamped to the string and
  swapped when the first is the larger one.
\<close>

definition substring :: "string \<Rightarrow> int \<Rightarrow> int \<Rightarrow> string" where
  "substring s a b =
     (let len = int (length s);
          a' = min (max a 0) len;
          b' = min (max b 0) len;
          lo = min a' b';
          hi = max a' b'
      in take (nat (hi - lo)) (drop (nat lo) s))"

text \<open>
  \<open>fullText.split(/[.!?]+/)\<close>: the pieces between the maximal runs of sentence
  punctuation, empty pieces included.
\<close>

definition is_sentence_end :: "char \<Rightarrow> bool" where
  "is_sentence_end c = (c = CHR ''.'' \<or> c = CHR ''!'' \<or> c = CHR ''?'')"

function split_sentences :: "string \<Rightarrow> string list" where
  "split_sentences s =
     (let piece = takeWhile (\<lambda>c. \<not> is_sentence_end c) s;
          rest = dropWhile (\<lambda>c. \<not> is_sentence_end c) s
      in if rest = [] then [piece]
         else piece # split_sentences (dropWhile is_sentence_end rest))"
  by pat_completeness auto
termination
proof (relation "measure length")
  show "wf (measure length)" by simp
next
  fix s :: string and piece rest :: string
  assume r: "rest = dropWhile (\<lambda>c. \<not> is_sentence_end c) s" and ne: "rest \<noteq> []"
  have "length (dropWhile is_sentence_end rest) < length rest"
  proof (cases rest)
    case Nil
    with ne show ?thesis by simp
  next
    case (Cons c cs)
    with r have "is_sentence_end c"
      by (metis hd_dropWhile list.sel(1) ne)
    with Cons show ?thesis
      by (simp add: le_imp_less_Suc length_dropWhile_le)
  qed
  also have "length rest \<le> length s"
    unfolding r by (rule length_dropWhile_le)
  finally show "(dropWhile is_sentence_end rest, s) \<in> measure length"
    by simp
qed

declare split_sentences.simps [simp del]

section \<open>\<open>getLayoutedElements\<close>: the ELK layout as a black box\<close>

text \<open>
  The graph handed to \<open>elk.layout\<close> and what the code reads from its result: the \<open>id\<close>,
  \<open>x\<close> and \<open>y\<close> of every child.  The call either throws or resolves to a graph whose
  \<open>children\<close> may be missing.
\<close>

record ElkInputNode =
  ein_node :: RFNode
  ein_width :: nat
  ein_height :: nat

record ElkInputEdge =
  eie_id :: string
  eie_sources :: "string list"
  eie_targets :: "string list"

record ElkGraph =
  eg_id :: string
  eg_layoutOptions :: "(string \<times> string) list"
  eg_children :: "ElkInputNode list"
  eg_edges :: "ElkInputEdge list"

record ElkChild =
  ec_id :: string
  ec_x :: "real option"
  ec_y :: "real option"

datatype ElkOutcome = ElkThrows | ElkLayout "ElkChild list option"

text \<open>
  A node on the canvas.  \<open>{...(nodes.find(...) as RFNode), position}\<close> spreads \<open>undefined\<close>
  when no input node carries the child's id: the result is then an object that has a
  position and nothing else.
\<close>

datatype CanvasNode = Placed RFNode | Orphan XYPosition

definition canvas_id :: "CanvasNode \<Rightarrow> string option" where
  "canvas_id n = (case n of Placed r \<Rightarrow> Some (rf_id r) | Orphan p \<Rightarrow> None)"

record Layouted =
  lr_nodes :: "CanvasNode list"
  lr_edges :: "Edge list"

definition elk_graph :: "RFNode list \<Rightarrow> Edge list \<Rightarrow> ElkGraph" where
  "elk_graph nodes edges =
     \<lparr>eg_id = ''root'',
      eg_layoutOptions =
        [(''elk.algorithm'', ''layered''),
         (''elk.direction'', ''DOWN''),
         (''elk.spacing.nodeNode'', ''80''),
         (''elk.layered.spacing.nodeNodeBetweenLayers'', ''100''),
         (''elk.edgeRouting'', ''ORTHOGONAL'')],
      eg_children =
        map (\<lambda>node. \<lparr>ein_node = node, ein_width = NODE_WIDTH, ein_height = NODE_HEIGHT\<rparr>) nodes,
      eg_edges =
        map (\<lambda>edge. \<lparr>eie_id = re_id edge, eie_sources = [re_source edge],
                       eie_targets = [re_target edge]\<rparr>) edges\<rparr>"

definition layouted_node :: "RFNode list \<Rightarrow> ElkChild \<Rightarrow> CanvasNode" where
  "layouted_node nodes node =
     (let position = \<lparr>pos_x = ec_x node, pos_y = ec_y node\<rparr>
      in case find (\<lambda>n. rf_id n = ec_id node) nodes of
           None \<Rightarrow> Orphan position
         | Some n \<Rightarrow> Placed (n\<lparr>rf_position := position\<rparr>))"

definition getLayoutedElements ::
  "(ElkGraph \<Rightarrow> ElkOutcome) \<Rightarrow> RFNode list \<Rightarrow> Edge list \<Rightarrow> Layouted" where
  "getLayoutedElements elk nodes edges =
     (case elk (elk_graph nodes edges) of
        ElkThrows \<Rightarrow> \<lparr>lr_nodes = map Placed nodes, lr_edges = edges\<rparr>
      | ElkLayout layoutedChildren \<Rightarrow>
          (let children = (case layoutedChildren of None \<Rightarrow> [] | Some cs \<Rightarrow> cs)
           in \<lparr>lr_nodes = map (layouted_node nodes) children, lr_edges = edges\<rparr>))"

section \<open>The \<open>App\<close> component: state, \<open>processText\<close>, context menu\<close>

text \<open>
  The messages passed to \<open>setError\<close>, in the order of the source: "enter a process
  description to build the diagram", "choose a model to process the text", "the diagram
  could not be fetched or processed; make sure the backend server is running", and the
  message of \<open>ModelSelector\<close>, "the list of models could not be loaded".
\<close>

datatype message = MsgEnterText | MsgSelectModel | MsgBackendFailed | MsgModelsFailed

datatype MenuTarget = NodeTarget | EdgeTarget

record ContextMenu =
  cm_x :: real
  cm_y :: real
  cm_target :: MenuTarget
  cm_id :: string

record AppState =
  app_nodes :: "CanvasNode list"
  app_edges :: "Edge list"
  app_text :: string
  app_error :: "message option"
  app_isLoading :: bool
  app_selectedNodeId :: "string option"
  app_isEditMode :: bool
  app_selectedModel :: string
  app_contextMenu :: "ContextMenu option"

text \<open>
  The HTTP interface.  A \<open>fetch\<close> either rejects or resolves to a response; reading the
  body with \<open>response.json()\<close> either rejects (\<open>None\<close>) or yields the typed value.
\<close>

datatype HttpMethod = GET | POST

record RequestBody =
  rb_text :: string
  rb_model :: string

record Request =
  req_url :: string
  req_method :: HttpMethod
  req_headers :: "(string \<times> string) list"
  req_body :: "RequestBody option"

record 'a Response =
  resp_ok :: bool
  resp_status :: nat
  resp_json :: "'a option"

datatype 'a FetchOutcome = Rejected | Resolved "'a Response"

definition process_text_request :: "string option \<Rightarrow> string \<Rightarrow> string \<Rightarrow> Request" where
  "process_text_request env txt model =
     \<lparr>req_url = API_URL env @ ''/process-text'',
      req_method = POST,
      req_headers = [(''Content-Type'', ''application/json'')],
      req_body = Some \<lparr>rb_text = txt, rb_model = model\<rparr>\<rparr>"

text \<open>
  \<open>processText\<close> returns the next state and the requests it has issued.  The \<open>catch\<close>
  branch sets the error and the \<open>finally\<close> branch clears \<open>isLoading\<close>.
\<close>

definition processText_failed :: "AppState \<Rightarrow> AppState" where
  "processText_failed s = s\<lparr>app_error := Some MsgBackendFailed, app_isLoading := False\<rparr>"

definition processText ::
  "string option \<Rightarrow> (Request \<Rightarrow> FlowData FetchOutcome) \<Rightarrow> (ElkGraph \<Rightarrow> ElkOutcome) \<Rightarrow>
   AppState \<Rightarrow> AppState \<times> Request list" where
  "processText env fetch elk s =
     (let trimmedText = trim (app_text s) in
      if trimmedText = [] then (s\<lparr>app_error := Some MsgEnterText\<rparr>, [])
      else if app_selectedModel s = [] then (s\<lparr>app_error := Some MsgSelectModel\<rparr>, [])
      else
        (let s1 = s\<lparr>app_isLoading := True, app_error := None\<rparr>;
             request = process_text_request env (app_text s) (app_selectedModel s)
         in case fetch request of
              Rejected \<Rightarrow> (processText_failed s1, [request])
            | Resolved response \<Rightarrow>
                if \<not> resp_ok response then (processText_failed s1, [request])
                else
                  (case resp_json response of
                     None \<Rightarrow> (processText_failed s1, [request])
                   | Some data \<Rightarrow>
                       (let layoutResult =
                              getLayoutedElements elk (reactFlowNodes data) (reactFlowEdges data)
                        in if length (lr_nodes layoutResult) > 0
                           then (s1\<lparr>app_nodes := lr_nodes layoutResult,
                                     app_edges := lr_edges layoutResult,
                                     app_isLoading := False\<rparr>, [request])
                           else (s1\<lparr>app_nodes := map Placed (reactFlowNodes data),
                                     app_edges := reactFlowEdges data,
                                     app_isLoading := False\<rparr>, [request])))))"

text \<open>\<open>handleDeleteFromContext\<close>, lines 280 to 292.\<close>

definition handleDeleteFromContext :: "AppState \<Rightarrow> AppState" where
  "handleDeleteFromContext s =
     (case app_contextMenu s of
        None \<Rightarrow> s
      | Some menu \<Rightarrow>
          if \<not> app_isEditMode s then s
          else
            (case cm_target menu of
               NodeTarget \<Rightarrow>
                 s\<lparr>app_nodes := filter (\<lambda>n. canvas_id n \<noteq> Some (cm_id menu)) (app_nodes s),
                   app_edges := filter (\<lambda>e. re_source e \<noteq> cm_id menu \<and> re_target e \<noteq> cm_id menu)
                                  (app_edges s),
                   app_contextMenu := None\<rparr>
             | EdgeTarget \<Rightarrow>
                 s\<lparr>app_edges := filter (\<lambda>e. re_id e \<noteq> cm_id menu) (app_edges s),
                   app_contextMenu := None\<rparr>))"

section \<open>\<open>findHighlightRange\<close> and the highlight overlay of \<open>TextEditor\<close>\<close>

record Sentence =
  sn_text :: string
  sn_startPos :: int
  sn_endPos :: int

text \<open>
  One result of \<open>fuse.search\<close>: the matched item of the collection and its score.  The
  search itself (\<open>new Fuse(sentences, options).search(pattern)\<close>) is a parameter.
\<close>

record FuseResult =
  fr_item :: Sentence
  fr_score :: "real option"

definition to_sentence :: "string \<Rightarrow> string \<Rightarrow> Sentence" where
  "to_sentence fullText sentence =
     (let trimmed = trim sentence;
          startPos = indexOf fullText trimmed
      in \<lparr>sn_text = trimmed, sn_startPos = startPos,
          sn_endPos = startPos + int (length trimmed)\<rparr>)"

definition sentences_of :: "string \<Rightarrow> Sentence list" where
  "sentences_of fullText =
     map (to_sentence fullText)
       (filter (\<lambda>s. length (trim s) > 0) (split_sentences fullText))"

text \<open>\<open>results[0].score || 1\<close>: a missing score and the score \<open>0\<close> are both falsy.\<close>

definition score_or_one :: "real option \<Rightarrow> real" where
  "score_or_one v = (case v of None \<Rightarrow> 1 | Some x \<Rightarrow> if x = 0 then 1 else x)"

definition findHighlightRange ::
  "(Sentence list \<Rightarrow> string \<Rightarrow> FuseResult list) \<Rightarrow> string \<Rightarrow> string option \<Rightarrow>
   (int \<times> int) option" where
  "findHighlightRange fuse fullText nodeText =
     (case nodeText of
        None \<Rightarrow> None
      | Some nt \<Rightarrow>
          if trim nt = [] then None
          else
            (let sentences = sentences_of fullText in
             if length sentences = 0 then None
             else
               (case fuse sentences (trim nt) of
                  [] \<Rightarrow> None
                | r # rs \<Rightarrow>
                    if 1 - score_or_one (fr_score r) > 2 / 10
                    then Some (sn_startPos (fr_item r), sn_endPos (fr_item r))
                    else None)))"

text \<open>
  The overlay of \<open>TextEditor\<close> (lines 109 to 143): the text before the match, the
  highlighted text and the text after it, or nothing.
\<close>

definition node_text :: "CanvasNode option \<Rightarrow> string option" where
  "node_text selectedNode =
     (case selectedNode of
        None \<Rightarrow> None
      | Some (Orphan p) \<Rightarrow> None
      | Some (Placed n) \<Rightarrow> Some (nd_text (rf_data n)))"

definition highlight_overlay ::
  "(Sentence list \<Rightarrow> string \<Rightarrow> FuseResult list) \<Rightarrow> string \<Rightarrow> CanvasNode list \<Rightarrow>
   string option \<Rightarrow> (string \<times> string \<times> string) option" where
  "highlight_overlay fuse txt nodes selectedNodeId =
     (if \<not> truthy selectedNodeId then None
      else
        (let selectedNode = find (\<lambda>n. canvas_id n = selectedNodeId) nodes;
             nodeText = node_text selectedNode
         in case findHighlightRange fuse txt nodeText of
              None \<Rightarrow> None
            | Some (start, end) \<Rightarrow>
                Some (substring txt 0 start,
                      substring txt start end,
                      substring txt end (int (length txt)))))"

section \<open>\<open>ExportPanel\<close>: the JSON, BPMN and Mermaid serializers\<close>

text \<open>
  Each exporter returns at once when there is no node (\<open>None\<close>); otherwise it builds the
  content of the file that the browser then downloads.  For JSON the content is the object
  handed to \<open>JSON.stringify\<close>.
\<close>

record JsonNode =
  jn_id :: string
  jn_label :: string
  jn_actor :: "string option"
  jn_type :: string
  jn_position :: XYPosition

record JsonEdge =
  je_id :: string
  je_from :: string
  je_to :: string
  je_label :: "string option"

record ExportData =
  ed_nodes :: "JsonNode list"
  ed_edges :: "JsonEdge list"

definition exportToJson :: "RFNode list \<Rightarrow> Edge list \<Rightarrow> ExportData option" where
  "exportToJson nodes edges =
     (if length nodes = 0 then None
      else Some
        \<lparr>ed_nodes =
           map (\<lambda>node. \<lparr>jn_id = rf_id node,
                         jn_label = nd_text (rf_data node),
                         jn_actor = nd_actor (rf_data node),
                         jn_type = (if truthy_bool (nd_isAction (rf_data node))
                                    then ''action'' else ''decision''),
                         jn_position = rf_position node\<rparr>) nodes,
         ed_edges =
           map (\<lambda>edge. \<lparr>je_id = re_id edge, je_from = re_source edge, je_to = re_target edge,
                         je_label = re_label edge\<rparr>) edges\<rparr>)"

text \<open>
  A number inside a template string.  How JavaScript prints a floating-point number is a
  parameter (\<open>fmt\<close>); \<open>undefined\<close> prints as the word.
\<close>

definition template_number :: "(real \<Rightarrow> string) \<Rightarrow> real option \<Rightarrow> string" where
  "template_number fmt v = (case v of None \<Rightarrow> ''undefined'' | Some x \<Rightarrow> fmt x)"

text \<open>The four \<open>map\<close> callbacks of the BPMN template, lines 136 to 166.\<close>

definition bpmn_process_node :: "RFNode \<Rightarrow> string" where
  \<open>bpmn_process_node node =
     (let nodeData = rf_data node;
          taskType = (if truthy_bool (nd_isAction nodeData)
                      then ''bpmn:task'' else ''bpmn:exclusiveGateway'')
      in ''    <'' @ taskType @ '' id="'' @ rf_id node @ ''" name="'' @ nd_text nodeData
           @ ''" />'')\<close>

definition bpmn_sequence_flow :: "Edge \<Rightarrow> string" where
  \<open>bpmn_sequence_flow edge =
     ''    <bpmn:sequenceFlow id="'' @ re_id edge @ ''" sourceRef="'' @ re_source edge
       @ ''" targetRef="'' @ re_target edge @ ''" />''\<close>

definition bpmn_shape :: "(real \<Rightarrow> string) \<Rightarrow> RFNode \<Rightarrow> string" where
  \<open>bpmn_shape fmt node =
     ''      <bpmndi:BPMNShape id="'' @ rf_id node @ ''_di" bpmnElement="'' @ rf_id node
       @ ''">\<newline>        <dc:Bounds x="''
       @ template_number fmt (pos_x (rf_position node)) @ ''" y="''
       @ template_number fmt (pos_y (rf_position node))
       @ ''" width="100" height="80" />\<newline>      </bpmndi:BPMNShape>''\<close>

definition bpmn_edge :: "Edge \<Rightarrow> string" where
  \<open>bpmn_edge edge =
     ''      <bpmndi:BPMNEdge id="'' @ re_id edge @ ''_di" bpmnElement="'' @ re_id edge
       @ ''">\<newline>        <di:waypoint x="150" y="150" />\<newline>''
       @ ''        <di:waypoint x="250" y="150" />\<newline>      </bpmndi:BPMNEdge>''\<close>

definition bpmn_prolog :: string where
  \<open>bpmn_prolog =
     ''<?xml version="1.0" encoding="UTF-8"?>\<newline>''
     @ ''<bpmn:definitions xmlns:bpmn="http://www.omg.org/spec/BPMN/20100524/MODEL"\<newline>''
     @ ''                  xmlns:bpmndi="http://www.omg.org/spec/BPMN/20100524/DI"\<newline>''
     @ ''                  xmlns:di="http://www.omg.org/spec/DD/20100524/DI"\<newline>''
     @ ''                  xmlns:dc="http://www.omg.org/spec/DD/20100524/DC"\<newline>''
     @ ''                  id="Definitions_1"\<newline>''
     @ ''                  targetNamespace="http://bpmn.io/schema/bpmn">\<newline>''\<close>

definition bpmn_epilog :: string where
  \<open>bpmn_epilog =
     ''    </bpmndi:BPMNPlane>\<newline>''
     @ ''  </bpmndi:BPMNDiagram>\<newline>''
     @ ''</bpmn:definitions>''\<close>

definition exportToBpmn :: "(real \<Rightarrow> string) \<Rightarrow> RFNode list \<Rightarrow> Edge list \<Rightarrow> string option" where
  \<open>exportToBpmn fmt nodes edges =
     (if length nodes = 0 then None
      else Some
        (bpmn_prolog
         @ ''  <bpmn:process id="Process_1" isExecutable="true">\<newline>''
         @ join ''\<newline>'' (map bpmn_process_node nodes) @ ''\<newline>''
         @ join ''\<newline>'' (map bpmn_sequence_flow edges) @ ''\<newline>''
         @ ''  </bpmn:process>\<newline>''
         @ ''  <bpmndi:BPMNDiagram id="BPMNDiagram_1">\<newline>''
         @ ''    <bpmndi:BPMNPlane id="BPMNPlane_1" bpmnElement="Process_1">\<newline>''
         @ join ''\<newline>'' (map (bpmn_shape fmt) nodes) @ ''\<newline>''
         @ join ''\<newline>'' (map bpmn_edge edges) @ ''\<newline>''
         @ bpmn_epilog))\<close>

text \<open>
  \<open>exportToMermaid\<close>, lines 219 to 249: two \<open>forEach\<close> loops that append to
  \<open>mermaidText\<close>.  Each loop is a \<open>fold\<close> of its body over the list.
\<close>

definition mermaid_node_step :: "RFNode \<Rightarrow> string \<Rightarrow> string" where
  \<open>mermaid_node_step node mermaidText =
     (let nodeData = rf_data node;
          shape = (if truthy_bool (nd_isAction nodeData) then ''[]'' else ''{}'');
          leftBracket = shape ! 0;
          rightBracket = shape ! 1
      in mermaidText @ ''    '' @ rf_id node @ [leftBracket] @ ''"'' @ nd_text nodeData @ ''"''
           @ [rightBracket] @ ''\<newline>'')\<close>

definition mermaid_edge_step :: "Edge \<Rightarrow> string \<Rightarrow> string" where
  \<open>mermaid_edge_step edge mermaidText =
     (let label = (case re_label edge of
                     None \<Rightarrow> []
                   | Some l \<Rightarrow> if l = [] then [] else ''|"'' @ l @ ''"'')
      in mermaidText @ ''    '' @ re_source edge @ '' -->'' @ label @ '' '' @ re_target edge
           @ ''\<newline>'')\<close>

definition exportToMermaid :: "RFNode list \<Rightarrow> Edge list \<Rightarrow> string option" where
  \<open>exportToMermaid nodes edges =
     (if length nodes = 0 then None
      else Some (fold mermaid_edge_step edges (fold mermaid_node_step nodes ''graph TD\<newline>'')))\<close>

section \<open>\<open>ModelSelector\<close>\<close>

record Model =
  m_id :: string
  m_name :: string
  m_description :: string

record SelectorState =
  ms_models :: "Model list"
  ms_loadingModels :: bool
  ms_error :: "message option"

definition selector_initial :: SelectorState where
  "selector_initial = \<lparr>ms_models = [], ms_loadingModels = True, ms_error = None\<rparr>"

definition models_request :: "string option \<Rightarrow> Request" where
  "models_request env =
     \<lparr>req_url = API_URL env @ ''/models'', req_method = GET, req_headers = [],
      req_body = None\<rparr>"

text \<open>
  What one run of \<open>fetchModels\<close> does: the next state of the component, the requests
  issued and the calls of \<open>onModelChange\<close>.
\<close>

record FetchModelsRun =
  run_state :: SelectorState
  run_requests :: "Request list"
  run_onModelChange :: "string list"

definition fetchModels_failed :: "Request \<Rightarrow> SelectorState \<Rightarrow> FetchModelsRun" where
  "fetchModels_failed request st =
     \<lparr>run_state = st\<lparr>ms_error := Some MsgModelsFailed, ms_loadingModels := False\<rparr>,
      run_requests = [request], run_onModelChange = []\<rparr>"

definition fetchModels ::
  "string option \<Rightarrow> (Request \<Rightarrow> Model list FetchOutcome) \<Rightarrow> string \<Rightarrow> SelectorState \<Rightarrow>
   FetchModelsRun" where
  "fetchModels env fetch selectedModel st =
     (let request = models_request env
      in case fetch request of
           Rejected \<Rightarrow> fetchModels_failed request st
         | Resolved response \<Rightarrow>
             if \<not> resp_ok response then fetchModels_failed request st
             else
               (case resp_json response of
                  None \<Rightarrow> fetchModels_failed request st
                | Some models \<Rightarrow>
                    \<lparr>run_state = st\<lparr>ms_models := models, ms_error := None,
                                     ms_loadingModels := False\<rparr>,
                     run_requests = [request],
                     run_onModelChange =
                       (case models of
                          [] \<Rightarrow> []
                        | m # ms \<Rightarrow> if selectedModel = [] then [m_id m] else [])\<rparr>))"

text \<open>The effect runs when the component mounts, on the initial state.\<close>

definition mount_ModelSelector ::
  "string option \<Rightarrow> (Request \<Rightarrow> Model list FetchOutcome) \<Rightarrow> string \<Rightarrow> FetchModelsRun" where
  "mount_ModelSelector env fetch selectedModel =
     fetchModels env fetch selectedModel selector_initial"

text \<open>
  What the component renders, lines 57 to 106: the spinner, the error box, or the dropdown
  with the list of models and the entry of the selected one.
\<close>

datatype SelectorView =
  LoadingView
  | ErrorView message
  | DropdownView "Model list" "Model option"

definition render_ModelSelector :: "SelectorState \<Rightarrow> string \<Rightarrow> SelectorView" where
  "render_ModelSelector st selectedModel =
     (let selectedModelData = find (\<lambda>m. m_id m = selectedModel) (ms_models st)
      in if ms_loadingModels st then LoadingView
         else (case ms_error st of
                 Some e \<Rightarrow> ErrorView e
               | None \<Rightarrow> DropdownView (ms_models st) selectedModelData))"

section \<open>Example inputs\<close>

text \<open>A backend response with an action node, a decision node and two edges.\<close>

definition example_response :: FlowData where
  "example_response =
     \<lparr>fd_nodes =
        [\<lparr>fn_id = ''n1'', fn_label = ''Register'', fn_type = Some ''action'',
          fn_actor = Some ''System'', fn_sourceSpan = None\<rparr>,
         \<lparr>fn_id = ''n2'', fn_label = ''Complete?'', fn_type = Some ''decision'',
          fn_actor = None, fn_sourceSpan = None\<rparr>],
      fd_edges =
        [\<lparr>fe_from = ''n1'', fe_to = ''n2'', fe_label = None\<rparr>,
         \<lparr>fe_from = ''n2'', fe_to = ''n1'', fe_label = Some ''Yes''\<rparr>],
      fd_lanes = None\<rparr>"

definition example_state :: AppState where
  "example_state =
     \<lparr>app_nodes = map Placed (reactFlowNodes example_response),
      app_edges = reactFlowEdges example_response,
      app_text = ''The client files a request. '',
      app_error = None,
      app_isLoading = False,
      app_selectedNodeId = None,
      app_isEditMode = True,
      app_selectedModel = ''model-a'',
      app_contextMenu = None\<rparr>"

definition fetch_status_500 :: "Request \<Rightarrow> FlowData FetchOutcome" where
  "fetch_status_500 request = Resolved \<lparr>resp_ok = False, resp_status = 500, resp_json = None\<rparr>"

definition elk_throws :: "ElkGraph \<Rightarrow> ElkOutcome" where
  "elk_throws graph = ElkThrows"

definition elk_without_children :: "ElkGraph \<Rightarrow> ElkOutcome" where
  "elk_without_children graph = ElkLayout None"

text \<open>A layout that echoes every child and stacks the nodes 160 units apart.\<close>

definition elk_column :: "ElkGraph \<Rightarrow> ElkOutcome" where
  "elk_column graph =
     ElkLayout (Some (map (\<lambda>(k, c). \<lparr>ec_id = rf_id (ein_node c), ec_x = Some 0,
                                       ec_y = Some (160 * real k)\<rparr>)
                       (enumerate 0 (eg_children graph))))"

definition blank_text_state :: AppState where
  "blank_text_state = example_state\<lparr>app_text := [CHR '' '', CHR 0x0A, CHR 0x09]\<rparr>"

text \<open>The example state with the context menu opened on a node and on an edge.\<close>

definition node_menu_state :: AppState where
  "node_menu_state =
     example_state\<lparr>app_contextMenu :=
       Some \<lparr>cm_x = 40, cm_y = 25, cm_target = NodeTarget, cm_id = ''n2''\<rparr>\<rparr>"

definition edge_menu_state :: AppState where
  "edge_menu_state =
     example_state\<lparr>app_contextMenu :=
       Some \<lparr>cm_x = 40, cm_y = 25, cm_target = EdgeTarget, cm_id = ''e-n2-n1-1''\<rparr>\<rparr>"

text \<open>
  Three backends for the model list: one that answers, one that answers with status 503
  and one that cannot be reached.
\<close>

definition models_ok :: "Request \<Rightarrow> Model list FetchOutcome" where
  "models_ok request =
     Resolved \<lparr>resp_ok = True, resp_status = 200,
               resp_json = Some [\<lparr>m_id = ''model-a'', m_name = ''Model A'', m_description = ''fast''\<rparr>,
                                 \<lparr>m_id = ''model-b'', m_name = ''Model B'', m_description = ''large''\<rparr>]\<rparr>"

definition models_unavailable :: "Request \<Rightarrow> Model list FetchOutcome" where
  "models_unavailable request =
     Resolved \<lparr>resp_ok = False, resp_status = 503, resp_json = None\<rparr>"

definition models_offline :: "Request \<Rightarrow> Model list FetchOutcome" where
  "models_offline request = Rejected"

text \<open>
  A printer for coordinates that are whole numbers, and a node and an edge whose texts
  hold quotes and XML metacharacters.
\<close>

definition show_integer :: "real \<Rightarrow> string" where
  "show_integer x = index_to_string (nat \<lfloor>x\<rfloor>)"

definition quoted_node :: RFNode where
  \<open>quoted_node =
     reactFlowNode \<lparr>fn_id = ''q1'', fn_label = ''Say "hi" & <go>'', fn_type = Some ''action'',
                    fn_actor = Some ''Clerk'', fn_sourceSpan = None\<rparr>\<close>

definition quoted_edge :: Edge where
  \<open>quoted_edge = reactFlowEdge 0 \<lparr>fe_from = ''q1'', fe_to = ''q1'', fe_label = Some ''a<"b"''\<rparr>\<close>

text \<open>A search that reports the first item of the collection with score one quarter.\<close>

definition fuse_first :: "Sentence list \<Rightarrow> string \<Rightarrow> FuseResult list" where
  "fuse_first sentences pattern =
     (case sentences of [] \<Rightarrow> [] | s # rest \<Rightarrow> [\<lparr>fr_item = s, fr_score = Some (1 / 4)\<rparr>])"

text \<open>A process description of three sentences.\<close>

definition example_text :: string where
  "example_text = ''Register it. Then check!  Done?''"

text \<open>A backend that answers with the example response, and a state with an empty canvas.\<close>

definition fetch_example :: "Request \<Rightarrow> FlowData FetchOutcome" where
  "fetch_example request =
     Resolved \<lparr>resp_ok = True, resp_status = 200, resp_json = Some example_response\<rparr>"

definition empty_canvas_state :: AppState where
  "empty_canvas_state = example_state\<lparr>app_nodes := [], app_edges := []\<rparr>"

section \<open>Facts about the examples\<close>

lemma whitespace_chars:
  "is_whitespace (CHR '' '')" "is_whitespace (CHR 0x0A)" "is_whitespace (CHR 0x09)"
  "\<not> is_whitespace (CHR ''T'')" "\<not> is_whitespace (CHR ''.'')"
  by (simp_all add: is_whitespace_def)

lemma example_ids:
  "map rf_id (reactFlowNodes example_response) = [''n1'', ''n2'']"
  "map re_id (reactFlowEdges example_response) = [''e-n1-n2-0'', ''e-n2-n1-1'']"
  "map re_source (reactFlowEdges example_response) = [''n1'', ''n2'']"
  "map re_target (reactFlowEdges example_response) = [''n2'', ''n1'']"
  "length (reactFlowNodes example_response) = 2"
  "length (reactFlowEdges example_response) = 2"
  by (simp_all add: reactFlowNodes_def reactFlowEdges_def reactFlowNode_def reactFlowEdge_def
      example_response_def Let_def enumerate_eq_zip upt_rec index_to_string.simps digit_char_def)

section \<open>The response mapping of \<open>processText\<close>\<close>

lemma nth_reactFlowEdges:
  "i < length (fd_edges data) \<Longrightarrow>
   reactFlowEdges data ! i = reactFlowEdge i (fd_edges data ! i)"
  by (simp add: reactFlowEdges_def nth_enumerate_eq)

lemma truthy_iff: "truthy v \<longleftrightarrow> (\<exists>a. v = Some a \<and> a \<noteq> [])"
  by (cases v) (simp_all add: truthy_def)

lemma reactFlow_lists:
  "length (reactFlowNodes data) = length (fd_nodes data)"
  "k < length (fd_nodes data) \<Longrightarrow> reactFlowNodes data ! k = reactFlowNode (fd_nodes data ! k)"
  "length (reactFlowEdges data) = length (fd_edges data)"
  by (simp_all add: reactFlowNodes_def reactFlowEdges_def)

lemma find_distinct_nth:
  "distinct (map f xs) \<Longrightarrow> k < length xs \<Longrightarrow>
   find (\<lambda>y. f y = f (xs ! k)) xs = Some (xs ! k)"
proof (induction xs arbitrary: k)
  case Nil
  then show ?case by simp
next
  case (Cons x xs)
  show ?case
  proof (cases k)
    case 0
    then show ?thesis by simp
  next
    case (Suc j)
    with Cons.prems have j: "j < length xs" and d: "distinct (map f xs)"
      and "f x \<notin> f ` set xs"
      by simp_all
    then have "f x \<noteq> f (xs ! j)"
      by (metis imageI nth_mem)
    with Cons.IH [OF d j] Suc show ?thesis
      by simp
  qed
qed

lemma map_rf_id_reactFlowNodes:
  "map rf_id (reactFlowNodes data) = map fn_id (fd_nodes data)"
  by (simp add: reactFlowNodes_def reactFlowNode_def Let_def)

lemma reactFlowNode_fields:
  "rf_id (reactFlowNode node) = fn_id node"
  "nd_text (rf_data (reactFlowNode node)) = fn_label node"
  "nd_actor (rf_data (reactFlowNode node)) = fn_actor node"
  "nd_isAction (rf_data (reactFlowNode node)) =
     Some (fn_type node = Some ''action'' \<and> (\<exists>a. fn_actor node = Some a \<and> a \<noteq> []))"
  by (simp_all add: reactFlowNode_def Let_def truthy_iff)

lemma reactFlowEdge_fields:
  "re_id (reactFlowEdge i edge) =
     ''e-'' @ fe_from edge @ ''-'' @ fe_to edge @ ''-'' @ index_to_string i"
  "re_source (reactFlowEdge i edge) = fe_from edge"
  "re_target (reactFlowEdge i edge) = fe_to edge"
  "re_label (reactFlowEdge i edge) = fe_label edge"
  by (simp_all add: reactFlowEdge_def)

lemma processText_success:
  assumes "trim (app_text s) \<noteq> []" and "app_selectedModel s \<noteq> []"
    and "fetch (process_text_request env (app_text s) (app_selectedModel s)) = Resolved response"
    and "resp_ok response" and "resp_json response = Some data"
  shows "app_edges (fst (processText env fetch elk s)) = reactFlowEdges data"
    and "app_nodes (fst (processText env fetch elk s)) =
          (if lr_nodes (getLayoutedElements elk (reactFlowNodes data) (reactFlowEdges data)) = []
           then map Placed (reactFlowNodes data)
           else lr_nodes (getLayoutedElements elk (reactFlowNodes data) (reactFlowEdges data)))"
    and "app_error (fst (processText env fetch elk s)) = None"
proof -
  have e: "lr_edges (getLayoutedElements elk (reactFlowNodes data) (reactFlowEdges data)) =
      reactFlowEdges data"
    by (simp add: getLayoutedElements_def split: ElkOutcome.splits)
  from assms show "app_edges (fst (processText env fetch elk s)) = reactFlowEdges data"
    by (simp add: processText_def Let_def e)
  from assms show "app_nodes (fst (processText env fetch elk s)) =
          (if lr_nodes (getLayoutedElements elk (reactFlowNodes data) (reactFlowEdges data)) = []
           then map Placed (reactFlowNodes data)
           else lr_nodes (getLayoutedElements elk (reactFlowNodes data) (reactFlowEdges data)))"
    by (simp add: processText_def Let_def)
  from assms show "app_error (fst (processText env fetch elk s)) = None"
    by (simp add: processText_def Let_def)
qed

text \<open>
  What the canvas holds after a layout that throws, that returns no children, or that
  returns one child per node, in order and under the node's id, when the ids differ.
\<close>

lemma layouted_or_fallback_nodes:
  assumes elk: "elk (elk_graph (reactFlowNodes data) (reactFlowEdges data)) = ElkThrows \<or>
      elk (elk_graph (reactFlowNodes data) (reactFlowEdges data)) = ElkLayout None \<or>
      (elk (elk_graph (reactFlowNodes data) (reactFlowEdges data)) = ElkLayout (Some children) \<and>
       map ec_id children = map fn_id (fd_nodes data) \<and> distinct (map fn_id (fd_nodes data)))"
  defines "shown \<equiv>
      (if lr_nodes (getLayoutedElements elk (reactFlowNodes data) (reactFlowEdges data)) = []
       then map Placed (reactFlowNodes data)
       else lr_nodes (getLayoutedElements elk (reactFlowNodes data) (reactFlowEdges data)))"
  shows "length shown = length (fd_nodes data)"
    and "k < length (fd_nodes data) \<Longrightarrow>
         \<exists>p. shown ! k = Placed ((reactFlowNode (fd_nodes data ! k))\<lparr>rf_position := p\<rparr>)"
proof -
  let ?N = "reactFlowNodes data" and ?E = "reactFlowEdges data"
  have len: "length ?N = length (fd_nodes data)"
    by (simp add: reactFlowNodes_def)
  have nth: "?N ! k = reactFlowNode (fd_nodes data ! k)" if "k < length (fd_nodes data)" for k
    using that by (simp add: reactFlowNodes_def)
  have plain: "map Placed ?N ! k = Placed ((reactFlowNode (fd_nodes data ! k))
      \<lparr>rf_position := rf_position (reactFlowNode (fd_nodes data ! k))\<rparr>)"
    if "k < length (fd_nodes data)" for k
    using that by (simp add: len nth)
  from elk consider
    (fallback) "shown = map Placed ?N"
    | (laid) "elk (elk_graph ?N ?E) = ElkLayout (Some children)"
        "map ec_id children = map fn_id (fd_nodes data)" "distinct (map fn_id (fd_nodes data))"
        "shown = map (layouted_node ?N) children"
  proof (elim disjE conjE)
    assume "elk (elk_graph ?N ?E) = ElkThrows"
    then have "shown = map Placed ?N"
      by (simp add: shown_def getLayoutedElements_def)
    then show ?thesis by (rule that(1))
  next
    assume "elk (elk_graph ?N ?E) = ElkLayout None"
    then have "shown = map Placed ?N"
      by (simp add: shown_def getLayoutedElements_def)
    then show ?thesis by (rule that(1))
  next
    assume c: "elk (elk_graph ?N ?E) = ElkLayout (Some children)"
      and ids: "map ec_id children = map fn_id (fd_nodes data)"
      and d: "distinct (map fn_id (fd_nodes data))"
    from ids have "length children = length (fd_nodes data)"
      by (metis length_map)
    with c len have "shown = (if children = [] then map Placed ?N
        else map (layouted_node ?N) children)"
      by (simp add: shown_def getLayoutedElements_def)
    moreover from \<open>length children = length (fd_nodes data)\<close> len
    have "children = [] \<Longrightarrow> map Placed ?N = map (layouted_node ?N) children"
      by simp
    ultimately have "shown = map (layouted_node ?N) children"
      by (cases "children = []") simp_all
    with c ids d show ?thesis by (rule that(2))
  qed
  note cases = this
  show "length shown = length (fd_nodes data)"
  proof (cases rule: cases)
    case fallback
    then show ?thesis by (simp add: len)
  next
    case laid
    from laid(2) have "length children = length (fd_nodes data)"
      by (metis length_map)
    with laid(4) show ?thesis by simp
  qed
  show "\<exists>p. shown ! k = Placed ((reactFlowNode (fd_nodes data ! k))\<lparr>rf_position := p\<rparr>)"
    if k: "k < length (fd_nodes data)"
  proof (cases rule: cases)
    case fallback
    with plain [OF k] show ?thesis by blast
  next
    case laid
    from laid(2) have lc: "length children = length (fd_nodes data)"
      by (metis length_map)
    from laid(2) k lc have "ec_id (children ! k) = fn_id (fd_nodes data ! k)"
      by (metis nth_map)
    also from k have "\<dots> = rf_id (?N ! k)"
      by (simp add: nth reactFlowNode_fields)
    finally have id: "ec_id (children ! k) = rf_id (?N ! k)" .
    from laid(3) have "distinct (map rf_id ?N)"
      by (simp add: map_rf_id_reactFlowNodes)
    from find_distinct_nth [OF this, of k] k len
    have "find (\<lambda>n. rf_id n = ec_id (children ! k)) ?N = Some (?N ! k)"
      by (simp add: id)
    then have "layouted_node ?N (children ! k) =
        Placed ((?N ! k)\<lparr>rf_position := \<lparr>pos_x = ec_x (children ! k),
                                          pos_y = ec_y (children ! k)\<rparr>\<rparr>)"
      by (simp add: layouted_node_def)
    with laid(4) k lc have "shown ! k =
        Placed ((reactFlowNode (fd_nodes data ! k))
          \<lparr>rf_position := \<lparr>pos_x = ec_x (children ! k), pos_y = ec_y (children ! k)\<rparr>\<rparr>)"
      by (simp add: nth)
    then show ?thesis by (rule exI)
  qed
qed

text \<open>
  C1.  When \<open>processText\<close> passes its guards and the backend answers ok with a response
  \<open>data\<close>, it leaves no error and sets the edges of the canvas to a list of the length and
  order of \<open>data.edges\<close>, whose \<open>i\<close>-th edge has the id \<open>e-from-to-i\<close> (with \<open>i\<close> in
  decimal, counted from 0), \<open>from\<close> as source, \<open>to\<close> as target and the same label.  It sets
  the nodes of the canvas to the layout of the React Flow node list, or to that list itself
  when the layout is empty.  The React Flow node list has the length and order of
  \<open>data.nodes\<close>: its \<open>k\<close>-th node has the id of the \<open>k\<close>-th input node, its label as
  \<open>data.text\<close>, its actor as \<open>data.actor\<close>, and \<open>data.isAction\<close> is the boolean "the type is
  \<open>action\<close> and the actor is present and not empty".  When the layout throws, returns no
  children, or returns one child per node in order under the node's id, the ids being
  distinct, the nodes of the canvas themselves have that length, order and those fields.
\<close>

theorem processText_maps_response:
  "(trim (app_text s) \<noteq> [] \<and> app_selectedModel s \<noteq> [] \<and>
    fetch (process_text_request env (app_text s) (app_selectedModel s)) = Resolved response \<and>
    resp_ok response \<and> resp_json response = Some data \<longrightarrow>
      app_error (fst (processText env fetch elk s)) = None \<and>
      app_edges (fst (processText env fetch elk s)) = reactFlowEdges data \<and>
      length (app_edges (fst (processText env fetch elk s))) = length (fd_edges data) \<and>
      (i < length (fd_edges data) \<longrightarrow>
         re_id (app_edges (fst (processText env fetch elk s)) ! i) =
           ''e-'' @ fe_from (fd_edges data ! i) @ ''-'' @ fe_to (fd_edges data ! i) @ ''-''
             @ index_to_string i \<and>
         re_source (app_edges (fst (processText env fetch elk s)) ! i) =
           fe_from (fd_edges data ! i) \<and>
         re_target (app_edges (fst (processText env fetch elk s)) ! i) =
           fe_to (fd_edges data ! i) \<and>
         re_label (app_edges (fst (processText env fetch elk s)) ! i) =
           fe_label (fd_edges data ! i)) \<and>
      app_nodes (fst (processText env fetch elk s)) =
        (if lr_nodes (getLayoutedElements elk (reactFlowNodes data) (reactFlowEdges data)) = []
         then map Placed (reactFlowNodes data)
         else lr_nodes (getLayoutedElements elk (reactFlowNodes data) (reactFlowEdges data))) \<and>
      (elk (elk_graph (reactFlowNodes data) (reactFlowEdges data)) = ElkThrows \<or>
       elk (elk_graph (reactFlowNodes data) (reactFlowEdges data)) = ElkLayout None \<or>
       (elk (elk_graph (reactFlowNodes data) (reactFlowEdges data)) = ElkLayout (Some children) \<and>
        map ec_id children = map fn_id (fd_nodes data) \<and>
        distinct (map fn_id (fd_nodes data))) \<longrightarrow>
         length (app_nodes (fst (processText env fetch elk s))) = length (fd_nodes data) \<and>
         (k < length (fd_nodes data) \<longrightarrow>
            (\<exists>n. app_nodes (fst (processText env fetch elk s)) ! k = Placed n \<and>
                 rf_id n = fn_id (fd_nodes data ! k) \<and>
                 nd_text (rf_data n) = fn_label (fd_nodes data ! k) \<and>
                 nd_actor (rf_data n) = fn_actor (fd_nodes data ! k) \<and>
                 nd_isAction (rf_data n) =
                   Some (fn_type (fd_nodes data ! k) = Some ''action'' \<and>
                         (\<exists>a. fn_actor (fd_nodes data ! k) = Some a \<and> a \<noteq> [])))))) \<and>
   length (reactFlowNodes data) = length (fd_nodes data) \<and>
   (k < length (fd_nodes data) \<longrightarrow>
      rf_id (reactFlowNodes data ! k) = fn_id (fd_nodes data ! k) \<and>
      nd_text (rf_data (reactFlowNodes data ! k)) = fn_label (fd_nodes data ! k) \<and>
      nd_actor (rf_data (reactFlowNodes data ! k)) = fn_actor (fd_nodes data ! k) \<and>
      nd_isAction (rf_data (reactFlowNodes data ! k)) =
        Some (fn_type (fd_nodes data ! k) = Some ''action'' \<and>
              (\<exists>a. fn_actor (fd_nodes data ! k) = Some a \<and> a \<noteq> []))) \<and>
   length (reactFlowEdges data) = length (fd_edges data) \<and>
   (i < length (fd_edges data) \<longrightarrow>
      re_id (reactFlowEdges data ! i) =
        ''e-'' @ fe_from (fd_edges data ! i) @ ''-'' @ fe_to (fd_edges data ! i) @ ''-''
          @ index_to_string i \<and>
      re_source (reactFlowEdges data ! i) = fe_from (fd_edges data ! i) \<and>
      re_target (reactFlowEdges data ! i) = fe_to (fd_edges data ! i) \<and>
      re_label (reactFlowEdges data ! i) = fe_label (fd_edges data ! i))"
proof (intro conjI impI)
  show "length (reactFlowNodes data) = length (fd_nodes data)"
    and "length (reactFlowEdges data) = length (fd_edges data)"
    by (rule reactFlow_lists)+
next
  assume "k < length (fd_nodes data)"
  then have nth: "reactFlowNodes data ! k = reactFlowNode (fd_nodes data ! k)"
    by (rule reactFlow_lists)
  show "rf_id (reactFlowNodes data ! k) = fn_id (fd_nodes data ! k)"
    and "nd_text (rf_data (reactFlowNodes data ! k)) = fn_label (fd_nodes data ! k)"
    and "nd_actor (rf_data (reactFlowNodes data ! k)) = fn_actor (fd_nodes data ! k)"
    and "nd_isAction (rf_data (reactFlowNodes data ! k)) =
        Some (fn_type (fd_nodes data ! k) = Some ''action'' \<and>
              (\<exists>a. fn_actor (fd_nodes data ! k) = Some a \<and> a \<noteq> []))"
    unfolding nth by (rule reactFlowNode_fields)+
next
  assume "i < length (fd_edges data)"
  then have nth: "reactFlowEdges data ! i = reactFlowEdge i (fd_edges data ! i)"
    by (rule nth_reactFlowEdges)
  show "re_id (reactFlowEdges data ! i) =
        ''e-'' @ fe_from (fd_edges data ! i) @ ''-'' @ fe_to (fd_edges data ! i) @ ''-''
          @ index_to_string i"
    and "re_source (reactFlowEdges data ! i) = fe_from (fd_edges data ! i)"
    and "re_target (reactFlowEdges data ! i) = fe_to (fd_edges data ! i)"
    and "re_label (reactFlowEdges data ! i) = fe_label (fd_edges data ! i)"
    unfolding nth by (rule reactFlowEdge_fields)+
next
  assume ok: "trim (app_text s) \<noteq> [] \<and> app_selectedModel s \<noteq> [] \<and>
    fetch (process_text_request env (app_text s) (app_selectedModel s)) = Resolved response \<and>
    resp_ok response \<and> resp_json response = Some data"
  then have run: "app_edges (fst (processText env fetch elk s)) = reactFlowEdges data"
    "app_nodes (fst (processText env fetch elk s)) =
          (if lr_nodes (getLayoutedElements elk (reactFlowNodes data) (reactFlowEdges data)) = []
           then map Placed (reactFlowNodes data)
           else lr_nodes (getLayoutedElements elk (reactFlowNodes data) (reactFlowEdges data)))"
    "app_error (fst (processText env fetch elk s)) = None"
    using processText_success [of s fetch env response data elk] by blast+
  show "app_error (fst (processText env fetch elk s)) = None"
    by (rule run)
  show "app_edges (fst (processText env fetch elk s)) = reactFlowEdges data"
    by (rule run)
  show "length (app_edges (fst (processText env fetch elk s))) = length (fd_edges data)"
    unfolding run by (rule reactFlow_lists)
  show "app_nodes (fst (processText env fetch elk s)) =
        (if lr_nodes (getLayoutedElements elk (reactFlowNodes data) (reactFlowEdges data)) = []
         then map Placed (reactFlowNodes data)
         else lr_nodes (getLayoutedElements elk (reactFlowNodes data) (reactFlowEdges data)))"
    by (rule run)
  {
    assume "i < length (fd_edges data)"
    then have nth: "reactFlowEdges data ! i = reactFlowEdge i (fd_edges data ! i)"
      by (rule nth_reactFlowEdges)
    show "re_id (app_edges (fst (processText env fetch elk s)) ! i) =
           ''e-'' @ fe_from (fd_edges data ! i) @ ''-'' @ fe_to (fd_edges data ! i) @ ''-''
             @ index_to_string i"
      and "re_source (app_edges (fst (processText env fetch elk s)) ! i) =
           fe_from (fd_edges data ! i)"
      and "re_target (app_edges (fst (processText env fetch elk s)) ! i) =
           fe_to (fd_edges data ! i)"
      and "re_label (app_edges (fst (processText env fetch elk s)) ! i) =
           fe_label (fd_edges data ! i)"
      unfolding run nth by (rule reactFlowEdge_fields)+
  }
  {
    assume elk: "elk (elk_graph (reactFlowNodes data) (reactFlowEdges data)) = ElkThrows \<or>
       elk (elk_graph (reactFlowNodes data) (reactFlowEdges data)) = ElkLayout None \<or>
       (elk (elk_graph (reactFlowNodes data) (reactFlowEdges data)) = ElkLayout (Some children) \<and>
        map ec_id children = map fn_id (fd_nodes data) \<and>
        distinct (map fn_id (fd_nodes data)))"
    show "length (app_nodes (fst (processText env fetch elk s))) = length (fd_nodes data)"
      unfolding run
      using elk
      by (rule layouted_or_fallback_nodes(1)
          [where elk = elk and data = data and children = children])
    assume k: "k < length (fd_nodes data)"
    from layouted_or_fallback_nodes(2)
      [where elk = elk and data = data and children = children and k = k, OF elk k]
    obtain p where "app_nodes (fst (processText env fetch elk s)) ! k =
        Placed ((reactFlowNode (fd_nodes data ! k))\<lparr>rf_position := p\<rparr>)"
      unfolding run by blast
    then show "\<exists>n. app_nodes (fst (processText env fetch elk s)) ! k = Placed n \<and>
                 rf_id n = fn_id (fd_nodes data ! k) \<and>
                 nd_text (rf_data n) = fn_label (fd_nodes data ! k) \<and>
                 nd_actor (rf_data n) = fn_actor (fd_nodes data ! k) \<and>
                 nd_isAction (rf_data n) =
                   Some (fn_type (fd_nodes data ! k) = Some ''action'' \<and>
                         (\<exists>a. fn_actor (fd_nodes data ! k) = Some a \<and> a \<noteq> []))"
      by (simp add: reactFlowNode_fields)
  }
qed

theorem processText_maps_response_witness:
  "trim (app_text empty_canvas_state) \<noteq> [] \<and>
   app_selectedModel empty_canvas_state \<noteq> [] \<and>
   app_nodes empty_canvas_state = [] \<and>
   app_edges empty_canvas_state = [] \<and>
   fetch_example (process_text_request None (app_text empty_canvas_state)
       (app_selectedModel empty_canvas_state)) =
     Resolved \<lparr>resp_ok = True, resp_status = 200, resp_json = Some example_response\<rparr> \<and>
   app_error (fst (processText None fetch_example elk_column empty_canvas_state)) = None \<and>
   length (app_edges (fst (processText None fetch_example elk_column empty_canvas_state))) = 2 \<and>
   re_id (app_edges (fst (processText None fetch_example elk_column empty_canvas_state)) ! 1)
     = ''e-n2-n1-1'' \<and>
   re_source (app_edges (fst (processText None fetch_example elk_column empty_canvas_state)) ! 1)
     = ''n2'' \<and>
   re_target (app_edges (fst (processText None fetch_example elk_column empty_canvas_state)) ! 1)
     = ''n1'' \<and>
   re_label (app_edges (fst (processText None fetch_example elk_column empty_canvas_state)) ! 1)
     = Some ''Yes'' \<and>
   length (app_nodes (fst (processText None fetch_example elk_column empty_canvas_state))) = 2 \<and>
   (\<exists>n. app_nodes (fst (processText None fetch_example elk_column empty_canvas_state)) ! 1
          = Placed n \<and>
        rf_id n = ''n2'' \<and> nd_text (rf_data n) = ''Complete?'' \<and>
        nd_actor (rf_data n) = None \<and> nd_isAction (rf_data n) = Some False) \<and>
   length (app_nodes (fst (processText None fetch_example elk_throws empty_canvas_state))) = 2 \<and>
   (\<exists>n. app_nodes (fst (processText None fetch_example elk_throws empty_canvas_state)) ! 0
          = Placed n \<and>
        rf_id n = ''n1'' \<and> nd_text (rf_data n) = ''Register'' \<and>
        nd_actor (rf_data n) = Some ''System'' \<and> nd_isAction (rf_data n) = Some True) \<and>
   length (reactFlowNodes example_response) = 2 \<and>
   rf_id (reactFlowNodes example_response ! 1) = ''n2'' \<and>
   nd_isAction (rf_data (reactFlowNodes example_response ! 1)) = Some False \<and>
   length (reactFlowEdges example_response) = 2 \<and>
   re_id (reactFlowEdges example_response ! 1) = ''e-n2-n1-1''"
proof -
  let ?N = "reactFlowNodes example_response" and ?E = "reactFlowEdges example_response"
  let ?r = "\<lparr>resp_ok = True, resp_status = 200, resp_json = Some example_response\<rparr>"
  let ?C = "[\<lparr>ec_id = ''n1'', ec_x = Some 0, ec_y = Some 0\<rparr>,
             \<lparr>ec_id = ''n2'', ec_x = Some 0, ec_y = Some 160\<rparr>]"
  have st: "trim (app_text empty_canvas_state) \<noteq> []"
    "app_selectedModel empty_canvas_state \<noteq> []"
    "app_nodes empty_canvas_state = []" "app_edges empty_canvas_state = []"
    by (simp_all add: empty_canvas_state_def example_state_def trim_def whitespace_chars)
  have f: "fetch_example (process_text_request None (app_text empty_canvas_state)
       (app_selectedModel empty_canvas_state)) = Resolved ?r"
    by (simp add: fetch_example_def)
  have ok: "trim (app_text empty_canvas_state) \<noteq> [] \<and>
      app_selectedModel empty_canvas_state \<noteq> [] \<and>
      fetch_example (process_text_request None (app_text empty_canvas_state)
        (app_selectedModel empty_canvas_state)) = Resolved ?r \<and>
      resp_ok ?r \<and> resp_json ?r = Some example_response"
    using st f by simp
  have v: "fd_nodes example_response ! Suc 0 =
             \<lparr>fn_id = ''n2'', fn_label = ''Complete?'', fn_type = Some ''decision'',
              fn_actor = None, fn_sourceSpan = None\<rparr>"
    "fd_nodes example_response ! 0 =
             \<lparr>fn_id = ''n1'', fn_label = ''Register'', fn_type = Some ''action'',
              fn_actor = Some ''System'', fn_sourceSpan = None\<rparr>"
    "fd_edges example_response ! Suc 0 =
       \<lparr>fe_from = ''n2'', fe_to = ''n1'', fe_label = Some ''Yes''\<rparr>"
    "length (fd_nodes example_response) = 2" "length (fd_edges example_response) = 2"
    "map fn_id (fd_nodes example_response) = [''n1'', ''n2'']"
    by (simp_all add: example_response_def)
  have k1: "(1::nat) < length (fd_nodes example_response)"
    and k0: "(0::nat) < length (fd_nodes example_response)"
    and i1: "(1::nat) < length (fd_edges example_response)"
    by (simp_all add: v)
  have s: "index_to_string (Suc 0) = ''1''"
    by (simp add: index_to_string.simps digit_char_def)
  have "length ?N = 2" by (rule example_ids)
  then obtain a b where N: "?N = [a, b]"
    by (auto simp: length_Suc_conv numeral_2_eq_2)
  with example_ids(1) have ids: "rf_id a = ''n1''" "rf_id b = ''n2''"
    by simp_all
  have c: "elk_column (elk_graph ?N ?E) = ElkLayout (Some ?C)"
    unfolding N by (simp add: elk_column_def elk_graph_def ids enumerate_eq_zip upt_rec)
  have col: "elk_column (elk_graph ?N ?E) = ElkThrows \<or>
       elk_column (elk_graph ?N ?E) = ElkLayout None \<or>
       (elk_column (elk_graph ?N ?E) = ElkLayout (Some ?C) \<and>
        map ec_id ?C = map fn_id (fd_nodes example_response) \<and>
        distinct (map fn_id (fd_nodes example_response)))"
    using c by (simp add: v)
  have thr: "elk_throws (elk_graph ?N ?E) = ElkThrows \<or>
       elk_throws (elk_graph ?N ?E) = ElkLayout None \<or>
       (elk_throws (elk_graph ?N ?E) = ElkLayout (Some ?C) \<and>
        map ec_id ?C = map fn_id (fd_nodes example_response) \<and>
        distinct (map fn_id (fd_nodes example_response)))"
    by (simp add: elk_throws_def)
  note laid = processText_maps_response
    [where s = empty_canvas_state and env = None and fetch = fetch_example and elk = elk_column
       and response = ?r and data = example_response and children = ?C and k = 1 and i = 1]
  note thrown = processText_maps_response
    [where s = empty_canvas_state and env = None and fetch = fetch_example and elk = elk_throws
       and response = ?r and data = example_response and children = ?C and k = 0 and i = 1]
  note L = laid [THEN conjunct1, THEN mp, OF ok]
  note T = thrown [THEN conjunct1, THEN mp, OF ok]
  note L5 = L [THEN conjunct2, THEN conjunct2, THEN conjunct2, THEN conjunct2, THEN conjunct2,
    THEN mp, OF col]
  note T5 = T [THEN conjunct2, THEN conjunct2, THEN conjunct2, THEN conjunct2, THEN conjunct2,
    THEN mp, OF thr]
  have 1: "app_error (fst (processText None fetch_example elk_column empty_canvas_state)) = None"
    by (rule L [THEN conjunct1])
  have 2: "length (app_edges (fst (processText None fetch_example elk_column
      empty_canvas_state))) = 2"
    using L [THEN conjunct2, THEN conjunct2, THEN conjunct1] by (simp add: v)
  have 3: "re_id (app_edges (fst (processText None fetch_example elk_column
        empty_canvas_state)) ! 1) = ''e-n2-n1-1'' \<and>
      re_source (app_edges (fst (processText None fetch_example elk_column
        empty_canvas_state)) ! 1) = ''n2'' \<and>
      re_target (app_edges (fst (processText None fetch_example elk_column
        empty_canvas_state)) ! 1) = ''n1'' \<and>
      re_label (app_edges (fst (processText None fetch_example elk_column
        empty_canvas_state)) ! 1) = Some ''Yes''"
    using L [THEN conjunct2, THEN conjunct2, THEN conjunct2, THEN conjunct1, THEN mp, OF i1]
    by (simp add: v s)
  have 4: "length (app_nodes (fst (processText None fetch_example elk_column
      empty_canvas_state))) = 2"
    using L5 [THEN conjunct1] by (simp add: v)
  have 5: "\<exists>n. app_nodes (fst (processText None fetch_example elk_column empty_canvas_state)) ! 1
          = Placed n \<and>
        rf_id n = ''n2'' \<and> nd_text (rf_data n) = ''Complete?'' \<and>
        nd_actor (rf_data n) = None \<and> nd_isAction (rf_data n) = Some False"
    using L5 [THEN conjunct2, THEN mp, OF k1] by (simp add: v)
  have 6: "length (app_nodes (fst (processText None fetch_example elk_throws
      empty_canvas_state))) = 2"
    using T5 [THEN conjunct1] by (simp add: v)
  have 7: "\<exists>n. app_nodes (fst (processText None fetch_example elk_throws empty_canvas_state)) ! 0
          = Placed n \<and>
        rf_id n = ''n1'' \<and> nd_text (rf_data n) = ''Register'' \<and>
        nd_actor (rf_data n) = Some ''System'' \<and> nd_isAction (rf_data n) = Some True"
    using T5 [THEN conjunct2, THEN mp, OF k0] by (simp add: v)
  note old = laid [THEN conjunct2]
  have 8: "length ?N = 2" "length ?E = 2"
    using old [THEN conjunct1] old [THEN conjunct2, THEN conjunct2, THEN conjunct1]
    by (simp_all add: v)
  have 9: "rf_id (?N ! 1) = ''n2'' \<and> nd_isAction (rf_data (?N ! 1)) = Some False"
    using old [THEN conjunct2, THEN conjunct1, THEN mp, OF k1] by (simp add: v)
  have 10: "re_id (?E ! 1) = ''e-n2-n1-1''"
    using old [THEN conjunct2, THEN conjunct2, THEN conjunct2, THEN mp, OF i1]
    by (simp add: v s)
  from st f 1 2 3 4 5 6 7 8 9 10 show ?thesis
    by simp
qed

section \<open>Guards and error paths of \<open>processText\<close>\<close>

lemma processText_precondition_fails:
  assumes "trim (app_text s) = [] \<or> app_selectedModel s = []"
  shows "snd (processText env fetch elk s) = []"
    and "app_error (fst (processText env fetch elk s)) =
           Some (if trim (app_text s) = [] then MsgEnterText else MsgSelectModel)"
    and "app_nodes (fst (processText env fetch elk s)) = app_nodes s"
    and "app_edges (fst (processText env fetch elk s)) = app_edges s"
  using assms by (auto simp: processText_def Let_def)

lemma processText_posts:
  assumes "trim (app_text s) \<noteq> []" and "app_selectedModel s \<noteq> []"
  shows "snd (processText env fetch elk s) =
           [process_text_request env (app_text s) (app_selectedModel s)]"
  using assms
  by (simp add: processText_def Let_def split: FetchOutcome.splits option.splits)

lemma processText_error_keeps_graph:
  assumes "app_error (fst (processText env fetch elk s)) \<noteq> None"
  shows "app_nodes (fst (processText env fetch elk s)) = app_nodes s"
    and "app_edges (fst (processText env fetch elk s)) = app_edges s"
  using assms
  by (auto simp: processText_def Let_def processText_failed_def
      split: FetchOutcome.splits option.splits if_splits)

lemma processText_not_ok:
  assumes "trim (app_text s) \<noteq> []" and "app_selectedModel s \<noteq> []"
    and "fetch (process_text_request env (app_text s) (app_selectedModel s)) = Resolved response"
    and "\<not> resp_ok response"
  shows "app_error (fst (processText env fetch elk s)) = Some MsgBackendFailed"
  using assms
  by (simp add: processText_def Let_def processText_failed_def)

text \<open>
  C2.  \<open>processText\<close> issues no request when the trimmed text is empty or no model is
  selected: it then sets an error message and leaves the nodes and the edges as they
  were.  Otherwise it issues exactly one request, a POST to \<open>API_URL/process-text\<close> whose
  JSON body holds the text and the selected model id.  When the response is not ok it sets
  an error message and leaves the nodes and the edges as they were; and whenever it ends
  with an error message set, on whatever path, the nodes and the edges are unchanged.
\<close>

theorem processText_guards_and_errors:
  "(trim (app_text s) = [] \<or> app_selectedModel s = [] \<longrightarrow>
      snd (processText env fetch elk s) = [] \<and>
      app_error (fst (processText env fetch elk s)) =
        Some (if trim (app_text s) = [] then MsgEnterText else MsgSelectModel) \<and>
      app_nodes (fst (processText env fetch elk s)) = app_nodes s \<and>
      app_edges (fst (processText env fetch elk s)) = app_edges s) \<and>
   (trim (app_text s) \<noteq> [] \<and> app_selectedModel s \<noteq> [] \<longrightarrow>
      snd (processText env fetch elk s) =
        [\<lparr>req_url = API_URL env @ ''/process-text'',
          req_method = POST,
          req_headers = [(''Content-Type'', ''application/json'')],
          req_body = Some \<lparr>rb_text = app_text s, rb_model = app_selectedModel s\<rparr>\<rparr>]) \<and>
   (trim (app_text s) \<noteq> [] \<and> app_selectedModel s \<noteq> [] \<and>
    fetch (process_text_request env (app_text s) (app_selectedModel s)) = Resolved response \<and>
    \<not> resp_ok response \<longrightarrow>
      app_error (fst (processText env fetch elk s)) = Some MsgBackendFailed \<and>
      app_nodes (fst (processText env fetch elk s)) = app_nodes s \<and>
      app_edges (fst (processText env fetch elk s)) = app_edges s) \<and>
   (app_error (fst (processText env fetch elk s)) \<noteq> None \<longrightarrow>
      app_nodes (fst (processText env fetch elk s)) = app_nodes s \<and>
      app_edges (fst (processText env fetch elk s)) = app_edges s)"
proof (intro conjI impI)
  assume a: "trim (app_text s) = [] \<or> app_selectedModel s = []"
  from processText_precondition_fails [OF a]
  show "snd (processText env fetch elk s) = []"
    and "app_error (fst (processText env fetch elk s)) =
           Some (if trim (app_text s) = [] then MsgEnterText else MsgSelectModel)"
    and "app_nodes (fst (processText env fetch elk s)) = app_nodes s"
    and "app_edges (fst (processText env fetch elk s)) = app_edges s"
    by simp_all
next
  assume "trim (app_text s) \<noteq> [] \<and> app_selectedModel s \<noteq> []"
  then show "snd (processText env fetch elk s) =
        [\<lparr>req_url = API_URL env @ ''/process-text'',
          req_method = POST,
          req_headers = [(''Content-Type'', ''application/json'')],
          req_body = Some \<lparr>rb_text = app_text s, rb_model = app_selectedModel s\<rparr>\<rparr>]"
    by (simp add: processText_posts process_text_request_def)
next
  assume a: "trim (app_text s) \<noteq> [] \<and> app_selectedModel s \<noteq> [] \<and>
    fetch (process_text_request env (app_text s) (app_selectedModel s)) = Resolved response \<and>
    \<not> resp_ok response"
  then have e: "app_error (fst (processText env fetch elk s)) = Some MsgBackendFailed"
    by (simp add: processText_not_ok)
  then show "app_error (fst (processText env fetch elk s)) = Some MsgBackendFailed" .
  from e have "app_error (fst (processText env fetch elk s)) \<noteq> None" by simp
  from processText_error_keeps_graph [OF this]
  show "app_nodes (fst (processText env fetch elk s)) = app_nodes s"
    and "app_edges (fst (processText env fetch elk s)) = app_edges s" .
next
  assume "app_error (fst (processText env fetch elk s)) \<noteq> None"
  from processText_error_keeps_graph [OF this]
  show "app_nodes (fst (processText env fetch elk s)) = app_nodes s"
    and "app_edges (fst (processText env fetch elk s)) = app_edges s" .
qed

theorem processText_guards_and_errors_witness:
  "trim (app_text blank_text_state) = [] \<and>
   snd (processText None fetch_status_500 elk_throws blank_text_state) = [] \<and>
   app_error (fst (processText None fetch_status_500 elk_throws blank_text_state)) =
     Some MsgEnterText \<and>
   app_nodes (fst (processText None fetch_status_500 elk_throws blank_text_state)) =
     app_nodes blank_text_state \<and>
   app_edges (fst (processText None fetch_status_500 elk_throws blank_text_state)) =
     app_edges blank_text_state \<and>
   trim (app_text example_state) \<noteq> [] \<and>
   app_selectedModel example_state \<noteq> [] \<and>
   \<not> resp_ok \<lparr>resp_ok = False, resp_status = 500, resp_json = None :: FlowData option\<rparr> \<and>
   snd (processText None fetch_status_500 elk_throws example_state) =
     [\<lparr>req_url = ''http://127.0.0.1:8000/process-text'',
       req_method = POST,
       req_headers = [(''Content-Type'', ''application/json'')],
       req_body = Some \<lparr>rb_text = ''The client files a request. '', rb_model = ''model-a''\<rparr>\<rparr>] \<and>
   app_error (fst (processText None fetch_status_500 elk_throws example_state)) =
     Some MsgBackendFailed \<and>
   app_error (fst (processText None fetch_status_500 elk_throws example_state)) \<noteq> None \<and>
   app_nodes (fst (processText None fetch_status_500 elk_throws example_state)) =
     app_nodes example_state \<and>
   app_edges (fst (processText None fetch_status_500 elk_throws example_state)) =
     app_edges example_state"
proof -
  let ?r = "\<lparr>resp_ok = False, resp_status = 500, resp_json = None :: FlowData option\<rparr>"
  have b: "trim (app_text blank_text_state) = []"
    by (simp add: blank_text_state_def trim_def whitespace_chars)
  have t: "trim (app_text example_state) \<noteq> []"
    by (simp add: example_state_def trim_def whitespace_chars)
  have m: "app_selectedModel example_state \<noteq> []"
    by (simp add: example_state_def)
  have f: "fetch_status_500
             (process_text_request None (app_text example_state) (app_selectedModel example_state))
           = Resolved ?r"
    by (simp add: fetch_status_500_def)
  have r: "\<not> resp_ok ?r"
    by simp
  have v: "app_text example_state = ''The client files a request. ''"
    "app_selectedModel example_state = ''model-a''"
    "API_URL None = ''http://127.0.0.1:8000''"
    by (simp_all add: example_state_def API_URL_def)
  note blank = processText_guards_and_errors
    [where s = blank_text_state and env = None and fetch = fetch_status_500 and elk = elk_throws]
  note failed = processText_guards_and_errors
    [where s = example_state and env = None and fetch = fetch_status_500 and elk = elk_throws
       and response = ?r]
  from blank b have 1:
    "snd (processText None fetch_status_500 elk_throws blank_text_state) = [] \<and>
     app_error (fst (processText None fetch_status_500 elk_throws blank_text_state)) =
       Some MsgEnterText \<and>
     app_nodes (fst (processText None fetch_status_500 elk_throws blank_text_state)) =
       app_nodes blank_text_state \<and>
     app_edges (fst (processText None fetch_status_500 elk_throws blank_text_state)) =
       app_edges blank_text_state"
    by simp
  from failed t m f r have 2:
    "snd (processText None fetch_status_500 elk_throws example_state) =
       [\<lparr>req_url = API_URL None @ ''/process-text'',
         req_method = POST,
         req_headers = [(''Content-Type'', ''application/json'')],
         req_body = Some \<lparr>rb_text = app_text example_state,
                           rb_model = app_selectedModel example_state\<rparr>\<rparr>] \<and>
     app_error (fst (processText None fetch_status_500 elk_throws example_state)) =
       Some MsgBackendFailed \<and>
     app_nodes (fst (processText None fetch_status_500 elk_throws example_state)) =
       app_nodes example_state \<and>
     app_edges (fst (processText None fetch_status_500 elk_throws example_state)) =
       app_edges example_state"
    by blast
  from 2 have 3: "app_error (fst (processText None fetch_status_500 elk_throws example_state))
      \<noteq> None"
    by simp
  note 4 = failed [THEN conjunct2, THEN conjunct2, THEN conjunct2, THEN mp, OF 3]
  from 1 2 3 4 b t m r show ?thesis
    by (simp add: v)
qed

section \<open>The frame of \<open>getLayoutedElements\<close>\<close>

lemma find_Some_member:
  "find P xs = Some x \<Longrightarrow> x \<in> set xs \<and> P x"
  by (induction xs) (auto split: if_splits)

lemma find_member_Some:
  "a \<in> f ` set xs \<Longrightarrow> \<exists>x. find (\<lambda>y. f y = a) xs = Some x"
  by (induction xs) auto

lemma layouted_node_known_id:
  assumes "ec_id c \<in> rf_id ` set nodes"
  shows "\<exists>n. n \<in> set nodes \<and> rf_id n = ec_id c \<and>
             layouted_node nodes c =
               Placed (n\<lparr>rf_position := \<lparr>pos_x = ec_x c, pos_y = ec_y c\<rparr>\<rparr>)"
proof -
  from find_member_Some [OF assms] obtain n
    where f: "find (\<lambda>m. rf_id m = ec_id c) nodes = Some n" by blast
  from find_Some_member [OF f] have "n \<in> set nodes" and "rf_id n = ec_id c" by simp_all
  moreover from f have "layouted_node nodes c =
      Placed (n\<lparr>rf_position := \<lparr>pos_x = ec_x c, pos_y = ec_y c\<rparr>\<rparr>)"
    by (simp add: layouted_node_def)
  ultimately show ?thesis by blast
qed

text \<open>
  C3.  \<open>getLayoutedElements\<close> returns the edge list it was given.  When the ELK call
  throws, it returns the node list it was given as well.  When ELK returns children, there
  is one returned node per child, in order, and every child that carries the id of an input
  node yields that input node (the first one with that id) with only the position replaced
  by the child's coordinates.  When ELK returns no children the node list is empty, in
  which case \<open>processText\<close> falls back to the unlaid nodes.
\<close>

theorem getLayoutedElements_frame:
  "lr_edges (getLayoutedElements elk nodes edges) = edges \<and>
   (elk (elk_graph nodes edges) = ElkThrows \<longrightarrow>
      lr_nodes (getLayoutedElements elk nodes edges) = map Placed nodes) \<and>
   (elk (elk_graph nodes edges) = ElkLayout None \<longrightarrow>
      lr_nodes (getLayoutedElements elk nodes edges) = []) \<and>
   (elk (elk_graph nodes edges) = ElkLayout (Some children) \<longrightarrow>
      length (lr_nodes (getLayoutedElements elk nodes edges)) = length children \<and>
      (j < length children \<and> ec_id (children ! j) \<in> rf_id ` set nodes \<longrightarrow>
         (\<exists>n. n \<in> set nodes \<and> rf_id n = ec_id (children ! j) \<and>
              lr_nodes (getLayoutedElements elk nodes edges) ! j =
                Placed (n\<lparr>rf_position := \<lparr>pos_x = ec_x (children ! j),
                                            pos_y = ec_y (children ! j)\<rparr>\<rparr>))))"
proof (intro conjI impI)
  show "lr_edges (getLayoutedElements elk nodes edges) = edges"
    by (simp add: getLayoutedElements_def split: ElkOutcome.splits)
next
  assume "elk (elk_graph nodes edges) = ElkThrows"
  then show "lr_nodes (getLayoutedElements elk nodes edges) = map Placed nodes"
    by (simp add: getLayoutedElements_def)
next
  assume "elk (elk_graph nodes edges) = ElkLayout None"
  then show "lr_nodes (getLayoutedElements elk nodes edges) = []"
    by (simp add: getLayoutedElements_def)
next
  assume "elk (elk_graph nodes edges) = ElkLayout (Some children)"
  then show "length (lr_nodes (getLayoutedElements elk nodes edges)) = length children"
    by (simp add: getLayoutedElements_def)
next
  assume l: "elk (elk_graph nodes edges) = ElkLayout (Some children)"
    and j: "j < length children \<and> ec_id (children ! j) \<in> rf_id ` set nodes"
  from l j have "lr_nodes (getLayoutedElements elk nodes edges) ! j =
      layouted_node nodes (children ! j)"
    by (simp add: getLayoutedElements_def)
  with layouted_node_known_id [of "children ! j" nodes] j
  show "\<exists>n. n \<in> set nodes \<and> rf_id n = ec_id (children ! j) \<and>
              lr_nodes (getLayoutedElements elk nodes edges) ! j =
                Placed (n\<lparr>rf_position := \<lparr>pos_x = ec_x (children ! j),
                                            pos_y = ec_y (children ! j)\<rparr>\<rparr>)"
    by simp
qed

theorem getLayoutedElements_frame_witness:
  "elk_throws (elk_graph (reactFlowNodes example_response) (reactFlowEdges example_response))
     = ElkThrows \<and>
   lr_nodes (getLayoutedElements elk_throws (reactFlowNodes example_response)
       (reactFlowEdges example_response)) = map Placed (reactFlowNodes example_response) \<and>
   lr_edges (getLayoutedElements elk_throws (reactFlowNodes example_response)
       (reactFlowEdges example_response)) = reactFlowEdges example_response \<and>
   elk_column (elk_graph (reactFlowNodes example_response) (reactFlowEdges example_response))
     = ElkLayout (Some [\<lparr>ec_id = ''n1'', ec_x = Some 0, ec_y = Some 0\<rparr>,
                        \<lparr>ec_id = ''n2'', ec_x = Some 0, ec_y = Some 160\<rparr>]) \<and>
   elk_without_children
       (elk_graph (reactFlowNodes example_response) (reactFlowEdges example_response))
     = ElkLayout None \<and>
   lr_nodes (getLayoutedElements elk_without_children (reactFlowNodes example_response)
       (reactFlowEdges example_response)) = [] \<and>
   ''n2'' \<in> rf_id ` set (reactFlowNodes example_response) \<and>
   lr_edges (getLayoutedElements elk_column (reactFlowNodes example_response)
       (reactFlowEdges example_response)) = reactFlowEdges example_response \<and>
   length (lr_nodes (getLayoutedElements elk_column (reactFlowNodes example_response)
       (reactFlowEdges example_response))) = 2 \<and>
   lr_nodes (getLayoutedElements elk_column (reactFlowNodes example_response)
       (reactFlowEdges example_response)) ! 1 =
     Placed ((reactFlowNodes example_response ! 1)
               \<lparr>rf_position := \<lparr>pos_x = Some 0, pos_y = Some 160\<rparr>\<rparr>)"
proof -
  let ?N = "reactFlowNodes example_response" and ?E = "reactFlowEdges example_response"
  let ?C = "[\<lparr>ec_id = ''n1'', ec_x = Some 0, ec_y = Some 0\<rparr>,
             \<lparr>ec_id = ''n2'', ec_x = Some 0, ec_y = Some 160\<rparr>]"
  have "length ?N = 2" by (rule example_ids)
  then obtain a b where N: "?N = [a, b]"
    by (auto simp: length_Suc_conv numeral_2_eq_2)
  with example_ids(1) have ids: "rf_id a = ''n1''" "rf_id b = ''n2''"
    by simp_all
  have t: "elk_throws (elk_graph ?N ?E) = ElkThrows"
    by (simp add: elk_throws_def)
  have c: "elk_column (elk_graph ?N ?E) = ElkLayout (Some ?C)"
    unfolding N by (simp add: elk_column_def elk_graph_def ids enumerate_eq_zip upt_rec)
  have j: "(1::nat) < length ?C \<and> ec_id (?C ! 1) \<in> rf_id ` set ?N"
    unfolding N by (simp add: ids)
  note thrown = getLayoutedElements_frame
    [where elk = elk_throws and nodes = ?N and edges = ?E]
  note placed = getLayoutedElements_frame
    [where elk = elk_column and nodes = ?N and edges = ?E and children = ?C and j = 1]
  have w: "elk_without_children (elk_graph ?N ?E) = ElkLayout None"
    by (simp add: elk_without_children_def)
  note 0 = getLayoutedElements_frame
    [where elk = elk_without_children and nodes = ?N and edges = ?E,
      THEN conjunct2, THEN conjunct2, THEN conjunct1, THEN mp, OF w]
  note 1 = thrown [THEN conjunct1] thrown [THEN conjunct2, THEN conjunct1, THEN mp, OF t]
  note 2 = placed [THEN conjunct1]
    placed [THEN conjunct2, THEN conjunct2, THEN conjunct2, THEN mp, OF c, THEN conjunct1]
  from placed [THEN conjunct2, THEN conjunct2, THEN conjunct2, THEN mp, OF c, THEN conjunct2,
      THEN mp, OF j]
  obtain n where n: "n \<in> set ?N" "rf_id n = ec_id (?C ! 1)"
    and 3: "lr_nodes (getLayoutedElements elk_column ?N ?E) ! 1 =
         Placed (n\<lparr>rf_position := \<lparr>pos_x = ec_x (?C ! 1), pos_y = ec_y (?C ! 1)\<rparr>\<rparr>)"
    by (elim exE conjE)
  from n have "n = b"
    unfolding N using ids by auto
  then have "n = ?N ! 1"
    by (simp add: N)
  with 3 have 4: "lr_nodes (getLayoutedElements elk_column ?N ?E) ! 1 =
      Placed ((?N ! 1)\<lparr>rf_position := \<lparr>pos_x = Some 0, pos_y = Some 160\<rparr>\<rparr>)"
    by simp
  from j have 5: "''n2'' \<in> rf_id ` set ?N"
    by simp
  from 0 1 2 4 5 t c w show ?thesis
    by simp
qed

section \<open>Deleting from the context menu\<close>

lemma filter_only_one:
  "filter (\<lambda>y. f y = a) xs = [x] \<Longrightarrow> filter (\<lambda>y. f y \<noteq> a) xs = remove1 x xs"
proof (induction xs)
  case Nil
  then show ?case by simp
next
  case (Cons y ys)
  show ?case
  proof (cases "f y = a")
    case True
    with Cons.prems have "y = x" and "filter (\<lambda>y. f y = a) ys = []" by simp_all
    then have "filter (\<lambda>y. f y \<noteq> a) ys = ys"
      by (simp add: filter_empty_conv filter_id_conv)
    with True \<open>y = x\<close> show ?thesis by simp
  next
    case False
    with Cons.prems have p: "filter (\<lambda>y. f y = a) ys = [x]" by simp
    then have "x \<in> set (filter (\<lambda>y. f y = a) ys)" by simp
    then have "f x = a" by simp
    with False have "y \<noteq> x" by auto
    with False Cons.IH [OF p] show ?thesis by simp
  qed
qed

text \<open>
  C8.  With a context menu open in edit mode, \<open>handleDeleteFromContext\<close> closes the menu
  and, on a node target, keeps exactly the nodes whose id differs from the target id and
  exactly the edges of which neither the source nor the target is that id, so that no
  remaining edge refers to the deleted id; when one node carries the id, the node list is
  the old one with that node taken out.  On an edge target it leaves the nodes as they
  are and keeps exactly the edges whose id differs; when one edge carries the id, the edge
  list is the old one with that edge taken out.
\<close>

theorem handleDeleteFromContext_removes:
  "app_contextMenu s = Some menu \<and> app_isEditMode s \<longrightarrow>
     app_contextMenu (handleDeleteFromContext s) = None \<and>
     (cm_target menu = NodeTarget \<longrightarrow>
        app_nodes (handleDeleteFromContext s) =
          filter (\<lambda>n. canvas_id n \<noteq> Some (cm_id menu)) (app_nodes s) \<and>
        app_edges (handleDeleteFromContext s) =
          filter (\<lambda>e. re_source e \<noteq> cm_id menu \<and> re_target e \<noteq> cm_id menu) (app_edges s) \<and>
        (\<forall>e \<in> set (app_edges (handleDeleteFromContext s)).
           re_source e \<noteq> cm_id menu \<and> re_target e \<noteq> cm_id menu) \<and>
        (filter (\<lambda>n. canvas_id n = Some (cm_id menu)) (app_nodes s) = [node] \<longrightarrow>
           app_nodes (handleDeleteFromContext s) = remove1 node (app_nodes s))) \<and>
     (cm_target menu = EdgeTarget \<longrightarrow>
        app_nodes (handleDeleteFromContext s) = app_nodes s \<and>
        app_edges (handleDeleteFromContext s) =
          filter (\<lambda>e. re_id e \<noteq> cm_id menu) (app_edges s) \<and>
        (filter (\<lambda>e. re_id e = cm_id menu) (app_edges s) = [edge] \<longrightarrow>
           app_edges (handleDeleteFromContext s) = remove1 edge (app_edges s)))"
proof (intro impI conjI)
  assume a: "app_contextMenu s = Some menu \<and> app_isEditMode s"
  then show "app_contextMenu (handleDeleteFromContext s) = None"
    by (simp add: handleDeleteFromContext_def split: MenuTarget.splits)
  {
    assume n: "cm_target menu = NodeTarget"
    with a show nodes: "app_nodes (handleDeleteFromContext s) =
          filter (\<lambda>n. canvas_id n \<noteq> Some (cm_id menu)) (app_nodes s)"
      by (simp add: handleDeleteFromContext_def)
    from a n show edges: "app_edges (handleDeleteFromContext s) =
          filter (\<lambda>e. re_source e \<noteq> cm_id menu \<and> re_target e \<noteq> cm_id menu) (app_edges s)"
      by (simp add: handleDeleteFromContext_def)
    then show "\<forall>e \<in> set (app_edges (handleDeleteFromContext s)).
           re_source e \<noteq> cm_id menu \<and> re_target e \<noteq> cm_id menu"
      by simp
    assume "filter (\<lambda>n. canvas_id n = Some (cm_id menu)) (app_nodes s) = [node]"
    then show "app_nodes (handleDeleteFromContext s) = remove1 node (app_nodes s)"
      unfolding nodes by (rule filter_only_one)
  }
  {
    assume e: "cm_target menu = EdgeTarget"
    with a show "app_nodes (handleDeleteFromContext s) = app_nodes s"
      by (simp add: handleDeleteFromContext_def)
    from a e show edges: "app_edges (handleDeleteFromContext s) =
          filter (\<lambda>e. re_id e \<noteq> cm_id menu) (app_edges s)"
      by (simp add: handleDeleteFromContext_def)
    assume "filter (\<lambda>e. re_id e = cm_id menu) (app_edges s) = [edge]"
    then show "app_edges (handleDeleteFromContext s) = remove1 edge (app_edges s)"
      unfolding edges by (rule filter_only_one)
  }
qed

theorem handleDeleteFromContext_removes_witness:
  "app_contextMenu node_menu_state =
     Some \<lparr>cm_x = 40, cm_y = 25, cm_target = NodeTarget, cm_id = ''n2''\<rparr> \<and>
   app_isEditMode node_menu_state \<and>
   filter (\<lambda>n. canvas_id n = Some ''n2'') (app_nodes node_menu_state) =
     [Placed (reactFlowNodes example_response ! 1)] \<and>
   app_contextMenu (handleDeleteFromContext node_menu_state) = None \<and>
   app_nodes (handleDeleteFromContext node_menu_state) =
     [Placed (reactFlowNodes example_response ! 0)] \<and>
   app_edges (handleDeleteFromContext node_menu_state) = [] \<and>
   app_contextMenu edge_menu_state =
     Some \<lparr>cm_x = 40, cm_y = 25, cm_target = EdgeTarget, cm_id = ''e-n2-n1-1''\<rparr> \<and>
   app_isEditMode edge_menu_state \<and>
   filter (\<lambda>e. re_id e = ''e-n2-n1-1'') (app_edges edge_menu_state) =
     [reactFlowEdges example_response ! 1] \<and>
   app_contextMenu (handleDeleteFromContext edge_menu_state) = None \<and>
   app_nodes (handleDeleteFromContext edge_menu_state) = app_nodes edge_menu_state \<and>
   app_edges (handleDeleteFromContext edge_menu_state) = [reactFlowEdges example_response ! 0]"
proof -
  let ?N = "reactFlowNodes example_response" and ?E = "reactFlowEdges example_response"
  let ?mn = "\<lparr>cm_x = 40, cm_y = 25, cm_target = NodeTarget, cm_id = ''n2''\<rparr>"
  let ?me = "\<lparr>cm_x = 40, cm_y = 25, cm_target = EdgeTarget, cm_id = ''e-n2-n1-1''\<rparr>"
  have "length ?N = 2" by (rule example_ids)
  then obtain a b where N: "?N = [a, b]"
    by (auto simp: length_Suc_conv numeral_2_eq_2)
  with example_ids(1) have ids: "rf_id a = ''n1''" "rf_id b = ''n2''"
    by simp_all
  have "length ?E = 2" by (rule example_ids)
  then obtain e f where E: "?E = [e, f]"
    by (auto simp: length_Suc_conv numeral_2_eq_2)
  with example_ids(2,3,4) have eids: "re_id e = ''e-n1-n2-0''" "re_id f = ''e-n2-n1-1''"
    "re_source e = ''n1''" "re_source f = ''n2''" "re_target e = ''n2''" "re_target f = ''n1''"
    by simp_all
  have mn: "app_contextMenu node_menu_state = Some ?mn \<and> app_isEditMode node_menu_state"
    and me: "app_contextMenu edge_menu_state = Some ?me \<and> app_isEditMode edge_menu_state"
    by (simp_all add: node_menu_state_def edge_menu_state_def example_state_def)
  have st: "app_nodes node_menu_state = [Placed a, Placed b]"
    "app_edges node_menu_state = [e, f]"
    "app_nodes edge_menu_state = [Placed a, Placed b]"
    "app_edges edge_menu_state = [e, f]"
    unfolding node_menu_state_def edge_menu_state_def example_state_def N E by simp_all
  have tn: "cm_target ?mn = NodeTarget" and te: "cm_target ?me = EdgeTarget"
    by simp_all
  have fn: "filter (\<lambda>n. canvas_id n = Some (cm_id ?mn)) (app_nodes node_menu_state) = [Placed b]"
    and fe: "filter (\<lambda>e. re_id e = cm_id ?me) (app_edges edge_menu_state) = [f]"
    unfolding st by (simp_all add: canvas_id_def ids eids)
  note on_node = handleDeleteFromContext_removes
    [where s = node_menu_state and menu = ?mn and node = "Placed b", THEN mp, OF mn]
  note on_edge = handleDeleteFromContext_removes
    [where s = edge_menu_state and menu = ?me and edge = f, THEN mp, OF me]
  note nb = on_node [THEN conjunct2, THEN conjunct1, THEN mp, OF tn]
  note eb = on_edge [THEN conjunct2, THEN conjunct2, THEN mp, OF te]
  have 1: "app_contextMenu (handleDeleteFromContext node_menu_state) = None"
    by (rule on_node [THEN conjunct1])
  have 2: "app_nodes (handleDeleteFromContext node_menu_state) = [Placed a]"
    using nb [THEN conjunct2, THEN conjunct2, THEN conjunct2, THEN mp, OF fn] ids
    unfolding st by auto
  have 3: "app_edges (handleDeleteFromContext node_menu_state) = []"
    using nb [THEN conjunct2, THEN conjunct1]
    unfolding st by (simp add: eids)
  have 4: "app_contextMenu (handleDeleteFromContext edge_menu_state) = None"
    by (rule on_edge [THEN conjunct1])
  have 5: "app_nodes (handleDeleteFromContext edge_menu_state) = app_nodes edge_menu_state"
    by (rule eb [THEN conjunct1])
  have 6: "app_edges (handleDeleteFromContext edge_menu_state) = [e]"
    using eb [THEN conjunct2, THEN conjunct2, THEN mp, OF fe] eids
    unfolding st by auto
  have 7: "filter (\<lambda>n. canvas_id n = Some ''n2'') (app_nodes node_menu_state) = [Placed (?N ! 1)]"
    "filter (\<lambda>e. re_id e = ''e-n2-n1-1'') (app_edges edge_menu_state) = [?E ! 1]"
    using fn fe by (simp_all add: N E)
  from 1 2 3 4 5 6 7 mn me show ?thesis
    by (simp add: N E)
qed

section \<open>The JSON export\<close>

text \<open>
  C4.  For a non-empty node list \<open>exportToJson\<close> produces an object whose node list has the
  length and order of the nodes, the \<open>k\<close>-th entry holding the node's id, \<open>data.text\<close> as
  label, \<open>data.actor\<close> as actor, the type \<open>action\<close> when \<open>data.isAction\<close> is true and
  \<open>decision\<close> otherwise, and the node's position; and whose edge list has the length and
  order of the edges, the \<open>i\<close>-th entry holding the edge's id, its source as \<open>from\<close>, its
  target as \<open>to\<close>, and its label.
\<close>

theorem exportToJson_serializes:
  "nodes \<noteq> [] \<longrightarrow>
     (\<exists>d. exportToJson nodes edges = Some d \<and>
        length (ed_nodes d) = length nodes \<and>
        (k < length nodes \<longrightarrow>
           jn_id (ed_nodes d ! k) = rf_id (nodes ! k) \<and>
           jn_label (ed_nodes d ! k) = nd_text (rf_data (nodes ! k)) \<and>
           jn_actor (ed_nodes d ! k) = nd_actor (rf_data (nodes ! k)) \<and>
           jn_type (ed_nodes d ! k) =
             (if nd_isAction (rf_data (nodes ! k)) = Some True then ''action'' else ''decision'') \<and>
           jn_position (ed_nodes d ! k) = rf_position (nodes ! k)) \<and>
        length (ed_edges d) = length edges \<and>
        (i < length edges \<longrightarrow>
           je_id (ed_edges d ! i) = re_id (edges ! i) \<and>
           je_from (ed_edges d ! i) = re_source (edges ! i) \<and>
           je_to (ed_edges d ! i) = re_target (edges ! i) \<and>
           je_label (ed_edges d ! i) = re_label (edges ! i)))"
proof
  assume ne: "nodes \<noteq> []"
  define d where "d = the (exportToJson nodes edges)"
  from ne have s: "exportToJson nodes edges = Some d"
    by (simp add: d_def exportToJson_def)
  from ne have n: "ed_nodes d = map (\<lambda>node. \<lparr>jn_id = rf_id node,
                         jn_label = nd_text (rf_data node),
                         jn_actor = nd_actor (rf_data node),
                         jn_type = (if truthy_bool (nd_isAction (rf_data node))
                                    then ''action'' else ''decision''),
                         jn_position = rf_position node\<rparr>) nodes"
    and e: "ed_edges d = map (\<lambda>edge. \<lparr>je_id = re_id edge, je_from = re_source edge,
                         je_to = re_target edge, je_label = re_label edge\<rparr>) edges"
    by (simp_all add: d_def exportToJson_def)
  have t: "truthy_bool v \<longleftrightarrow> v = Some True" for v
    by (cases v) (simp_all add: truthy_bool_def)
  show "\<exists>d. exportToJson nodes edges = Some d \<and>
        length (ed_nodes d) = length nodes \<and>
        (k < length nodes \<longrightarrow>
           jn_id (ed_nodes d ! k) = rf_id (nodes ! k) \<and>
           jn_label (ed_nodes d ! k) = nd_text (rf_data (nodes ! k)) \<and>
           jn_actor (ed_nodes d ! k) = nd_actor (rf_data (nodes ! k)) \<and>
           jn_type (ed_nodes d ! k) =
             (if nd_isAction (rf_data (nodes ! k)) = Some True then ''action'' else ''decision'') \<and>
           jn_position (ed_nodes d ! k) = rf_position (nodes ! k)) \<and>
        length (ed_edges d) = length edges \<and>
        (i < length edges \<longrightarrow>
           je_id (ed_edges d ! i) = re_id (edges ! i) \<and>
           je_from (ed_edges d ! i) = re_source (edges ! i) \<and>
           je_to (ed_edges d ! i) = re_target (edges ! i) \<and>
           je_label (ed_edges d ! i) = re_label (edges ! i))"
    by (rule exI [of _ d]) (simp add: s n e t)
qed

theorem exportToJson_serializes_witness:
  "reactFlowNodes example_response \<noteq> [] \<and>
   (1::nat) < length (reactFlowNodes example_response) \<and>
   (1::nat) < length (reactFlowEdges example_response) \<and>
   exportToJson (reactFlowNodes example_response) (reactFlowEdges example_response) \<noteq> None \<and>
   length (ed_nodes (the (exportToJson (reactFlowNodes example_response)
     (reactFlowEdges example_response)))) = 2 \<and>
   ed_nodes (the (exportToJson (reactFlowNodes example_response)
     (reactFlowEdges example_response))) ! 1 =
     \<lparr>jn_id = ''n2'', jn_label = ''Complete?'', jn_actor = None, jn_type = ''decision'',
      jn_position = \<lparr>pos_x = Some 0, pos_y = Some 0\<rparr>\<rparr> \<and>
   length (ed_edges (the (exportToJson (reactFlowNodes example_response)
     (reactFlowEdges example_response)))) = 2 \<and>
   ed_edges (the (exportToJson (reactFlowNodes example_response)
     (reactFlowEdges example_response))) ! 1 =
     \<lparr>je_id = ''e-n2-n1-1'', je_from = ''n2'', je_to = ''n1'', je_label = Some ''Yes''\<rparr>"
proof -
  let ?N = "reactFlowNodes example_response" and ?E = "reactFlowEdges example_response"
  have len: "length ?N = 2" "length ?E = 2"
    by (rule example_ids)+
  then have ne: "?N \<noteq> []" and k: "(1::nat) < length ?N" and i: "(1::nat) < length ?E"
    by auto
  have n1: "?N ! 1 = reactFlowNode (fd_nodes example_response ! 1)"
    by (simp add: reactFlowNodes_def example_response_def)
  have e1: "?E ! 1 = reactFlowEdge 1 (fd_edges example_response ! 1)"
    by (rule nth_reactFlowEdges) (simp add: example_response_def)
  have s: "index_to_string (Suc 0) = ''1''"
    by (simp add: index_to_string.simps digit_char_def)
  from exportToJson_serializes [where nodes = ?N and edges = ?E and k = 1 and i = 1,
      THEN mp, OF ne]
  obtain d where d: "exportToJson ?N ?E = Some d"
    and ln: "length (ed_nodes d) = length ?N"
    and nk: "1 < length ?N \<longrightarrow>
           jn_id (ed_nodes d ! 1) = rf_id (?N ! 1) \<and>
           jn_label (ed_nodes d ! 1) = nd_text (rf_data (?N ! 1)) \<and>
           jn_actor (ed_nodes d ! 1) = nd_actor (rf_data (?N ! 1)) \<and>
           jn_type (ed_nodes d ! 1) =
             (if nd_isAction (rf_data (?N ! 1)) = Some True then ''action'' else ''decision'') \<and>
           jn_position (ed_nodes d ! 1) = rf_position (?N ! 1)"
    and le: "length (ed_edges d) = length ?E"
    and ei: "1 < length ?E \<longrightarrow>
           je_id (ed_edges d ! 1) = re_id (?E ! 1) \<and>
           je_from (ed_edges d ! 1) = re_source (?E ! 1) \<and>
           je_to (ed_edges d ! 1) = re_target (?E ! 1) \<and>
           je_label (ed_edges d ! 1) = re_label (?E ! 1)"
    by (elim exE conjE)
  from nk [THEN mp, OF k] have 1: "ed_nodes d ! 1 =
     \<lparr>jn_id = ''n2'', jn_label = ''Complete?'', jn_actor = None, jn_type = ''decision'',
      jn_position = \<lparr>pos_x = Some 0, pos_y = Some 0\<rparr>\<rparr>"
    unfolding n1
    by (intro JsonNode.equality)
      (simp_all add: reactFlowNode_def example_response_def Let_def truthy_def)
  from ei [THEN mp, OF i] have 2: "ed_edges d ! 1 =
     \<lparr>je_id = ''e-n2-n1-1'', je_from = ''n2'', je_to = ''n1'', je_label = Some ''Yes''\<rparr>"
    unfolding e1
    by (intro JsonEdge.equality) (simp_all add: reactFlowEdge_def example_response_def s)
  from d ln le 1 2 ne k i show ?thesis
    by (simp add: len)
qed

section \<open>Loading the models\<close>

text \<open>
  C7.  On mount \<open>ModelSelector\<close> issues one GET request to \<open>API_URL/models\<close>.  On an ok
  response with a model list it stores the list, shows the dropdown and, when no model is
  selected and the list is not empty, calls \<open>onModelChange\<close> once with the id of the first
  model; otherwise it does not call it.  When the fetch is rejected or the status is not
  ok it renders the error message in place of the dropdown and does not call
  \<open>onModelChange\<close>.
\<close>

theorem ModelSelector_mount:
  "run_requests (mount_ModelSelector env fetch selectedModel) =
     [\<lparr>req_url = API_URL env @ ''/models'', req_method = GET, req_headers = [],
       req_body = None\<rparr>] \<and>
   (fetch (models_request env) = Resolved response \<and> resp_ok response \<and>
    resp_json response = Some models \<longrightarrow>
      ms_models (run_state (mount_ModelSelector env fetch selectedModel)) = models \<and>
      ms_error (run_state (mount_ModelSelector env fetch selectedModel)) = None \<and>
      render_ModelSelector (run_state (mount_ModelSelector env fetch selectedModel)) selectedModel
        = DropdownView models (find (\<lambda>m. m_id m = selectedModel) models) \<and>
      (selectedModel = [] \<and> models \<noteq> [] \<longrightarrow>
         run_onModelChange (mount_ModelSelector env fetch selectedModel) = [m_id (models ! 0)]) \<and>
      (selectedModel \<noteq> [] \<or> models = [] \<longrightarrow>
         run_onModelChange (mount_ModelSelector env fetch selectedModel) = [])) \<and>
   (fetch (models_request env) = Rejected \<or>
    (fetch (models_request env) = Resolved response \<and> \<not> resp_ok response) \<longrightarrow>
      render_ModelSelector (run_state (mount_ModelSelector env fetch selectedModel)) selectedModel
        = ErrorView MsgModelsFailed \<and>
      run_onModelChange (mount_ModelSelector env fetch selectedModel) = [])"
proof (intro conjI impI)
  show "run_requests (mount_ModelSelector env fetch selectedModel) =
     [\<lparr>req_url = API_URL env @ ''/models'', req_method = GET, req_headers = [],
       req_body = None\<rparr>]"
    by (simp add: mount_ModelSelector_def fetchModels_def fetchModels_failed_def
        models_request_def Let_def split: FetchOutcome.splits option.splits)
next
  assume ok: "fetch (models_request env) = Resolved response \<and> resp_ok response \<and>
    resp_json response = Some models"
  then show "ms_models (run_state (mount_ModelSelector env fetch selectedModel)) = models"
    and "ms_error (run_state (mount_ModelSelector env fetch selectedModel)) = None"
    and "render_ModelSelector (run_state (mount_ModelSelector env fetch selectedModel))
          selectedModel = DropdownView models (find (\<lambda>m. m_id m = selectedModel) models)"
    by (simp_all add: mount_ModelSelector_def fetchModels_def Let_def render_ModelSelector_def)
  {
    assume "selectedModel = [] \<and> models \<noteq> []"
    with ok show "run_onModelChange (mount_ModelSelector env fetch selectedModel)
        = [m_id (models ! 0)]"
      by (cases models) (simp_all add: mount_ModelSelector_def fetchModels_def Let_def)
  }
  {
    assume "selectedModel \<noteq> [] \<or> models = []"
    with ok show "run_onModelChange (mount_ModelSelector env fetch selectedModel) = []"
      by (cases models) (auto simp: mount_ModelSelector_def fetchModels_def Let_def)
  }
next
  assume bad: "fetch (models_request env) = Rejected \<or>
    (fetch (models_request env) = Resolved response \<and> \<not> resp_ok response)"
  then have f: "mount_ModelSelector env fetch selectedModel =
      fetchModels_failed (models_request env) selector_initial"
    by (auto simp: mount_ModelSelector_def fetchModels_def Let_def)
  show "render_ModelSelector (run_state (mount_ModelSelector env fetch selectedModel))
          selectedModel = ErrorView MsgModelsFailed"
    by (simp add: f fetchModels_failed_def render_ModelSelector_def Let_def)
  show "run_onModelChange (mount_ModelSelector env fetch selectedModel) = []"
    by (simp add: f fetchModels_failed_def)
qed

theorem ModelSelector_mount_witness:
  "models_ok (models_request None) =
     Resolved \<lparr>resp_ok = True, resp_status = 200,
               resp_json = Some [\<lparr>m_id = ''model-a'', m_name = ''Model A'', m_description = ''fast''\<rparr>,
                                 \<lparr>m_id = ''model-b'', m_name = ''Model B'', m_description = ''large''\<rparr>]\<rparr> \<and>
   run_requests (mount_ModelSelector None models_ok []) =
     [\<lparr>req_url = ''http://127.0.0.1:8000/models'', req_method = GET, req_headers = [],
       req_body = None\<rparr>] \<and>
   ms_models (run_state (mount_ModelSelector None models_ok [])) =
     [\<lparr>m_id = ''model-a'', m_name = ''Model A'', m_description = ''fast''\<rparr>,
      \<lparr>m_id = ''model-b'', m_name = ''Model B'', m_description = ''large''\<rparr>] \<and>
   run_onModelChange (mount_ModelSelector None models_ok []) = [''model-a''] \<and>
   run_onModelChange (mount_ModelSelector None models_ok ''model-b'') = [] \<and>
   models_unavailable (models_request None) =
     Resolved \<lparr>resp_ok = False, resp_status = 503, resp_json = None\<rparr> \<and>
   render_ModelSelector (run_state (mount_ModelSelector None models_unavailable [])) []
     = ErrorView MsgModelsFailed \<and>
   run_onModelChange (mount_ModelSelector None models_unavailable []) = [] \<and>
   models_offline (models_request None) = Rejected \<and>
   render_ModelSelector (run_state (mount_ModelSelector None models_offline [])) []
     = ErrorView MsgModelsFailed \<and>
   run_onModelChange (mount_ModelSelector None models_offline []) = []"
proof -
  let ?ms = "[\<lparr>m_id = ''model-a'', m_name = ''Model A'', m_description = ''fast''\<rparr>,
              \<lparr>m_id = ''model-b'', m_name = ''Model B'', m_description = ''large''\<rparr>]"
  let ?ok = "\<lparr>resp_ok = True, resp_status = 200, resp_json = Some ?ms\<rparr>"
  let ?bad = "\<lparr>resp_ok = False, resp_status = 503, resp_json = None :: Model list option\<rparr>"
  have ok: "models_ok (models_request None) = Resolved ?ok \<and> resp_ok ?ok \<and>
      resp_json ?ok = Some ?ms"
    by (simp add: models_ok_def)
  have bad: "models_unavailable (models_request None) = Rejected \<or>
      (models_unavailable (models_request None) = Resolved ?bad \<and> \<not> resp_ok ?bad)"
    by (simp add: models_unavailable_def)
  have off: "models_offline (models_request None) = Rejected \<or>
      (models_offline (models_request None) = Resolved ?bad \<and> \<not> resp_ok ?bad)"
    by (simp add: models_offline_def)
  note fresh = ModelSelector_mount
    [where env = None and fetch = models_ok and selectedModel = "[]" and response = ?ok
       and models = ?ms]
  note chosen = ModelSelector_mount
    [where env = None and fetch = models_ok and selectedModel = "''model-b''"
       and response = ?ok and models = ?ms]
  note unavailable = ModelSelector_mount
    [where env = None and fetch = models_unavailable and selectedModel = "[]"
       and response = ?bad]
  note offline = ModelSelector_mount
    [where env = None and fetch = models_offline and selectedModel = "[]" and response = ?bad]
  note f = fresh [THEN conjunct2, THEN conjunct1, THEN mp, OF ok]
  note c = chosen [THEN conjunct2, THEN conjunct1, THEN mp, OF ok]
  have 1: "run_requests (mount_ModelSelector None models_ok []) =
     [\<lparr>req_url = ''http://127.0.0.1:8000/models'', req_method = GET, req_headers = [],
       req_body = None\<rparr>]"
    using fresh [THEN conjunct1] by (simp add: API_URL_def)
  have 2: "ms_models (run_state (mount_ModelSelector None models_ok [])) = ?ms"
    by (rule f [THEN conjunct1])
  have 3: "run_onModelChange (mount_ModelSelector None models_ok []) = [''model-a'']"
    using f [THEN conjunct2, THEN conjunct2, THEN conjunct2, THEN conjunct1] by simp
  have 4: "run_onModelChange (mount_ModelSelector None models_ok ''model-b'') = []"
    using c [THEN conjunct2, THEN conjunct2, THEN conjunct2, THEN conjunct2] by simp
  note 5 = unavailable [THEN conjunct2, THEN conjunct2, THEN mp, OF bad]
  note 6 = offline [THEN conjunct2, THEN conjunct2, THEN mp, OF off]
  from 1 2 3 4 5 6 show ?thesis
    by (simp add: models_ok_def models_unavailable_def models_offline_def)
qed

section \<open>The Mermaid and BPMN exports\<close>

lemma example_graph:
  "reactFlowNodes example_response =
     [reactFlowNode \<lparr>fn_id = ''n1'', fn_label = ''Register'', fn_type = Some ''action'',
                     fn_actor = Some ''System'', fn_sourceSpan = None\<rparr>,
      reactFlowNode \<lparr>fn_id = ''n2'', fn_label = ''Complete?'', fn_type = Some ''decision'',
                     fn_actor = None, fn_sourceSpan = None\<rparr>]"
  "reactFlowEdges example_response =
     [reactFlowEdge 0 \<lparr>fe_from = ''n1'', fe_to = ''n2'', fe_label = None\<rparr>,
      reactFlowEdge 1 \<lparr>fe_from = ''n2'', fe_to = ''n1'', fe_label = Some ''Yes''\<rparr>]"
  by (simp_all add: reactFlowNodes_def reactFlowEdges_def example_response_def
      enumerate_eq_zip upt_rec)

lemma index_to_string_digits:
  "index_to_string 0 = ''0''" "index_to_string 1 = ''1''" "index_to_string (Suc 0) = ''1''"
  by (simp_all add: index_to_string.simps digit_char_def)

lemma truthy_bool_iff: "truthy_bool v \<longleftrightarrow> v = Some True"
  by (cases v) (simp_all add: truthy_bool_def)

lemma join_terminated:
  "xs \<noteq> [] \<Longrightarrow> join sep xs @ sep = concat (map (\<lambda>x. x @ sep) xs)"
  by (induction sep xs rule: join.induct) simp_all

lemma mermaid_node_step_append:
  "mermaid_node_step node acc = acc @ mermaid_node_step node []"
  by (simp add: mermaid_node_step_def Let_def)

lemma mermaid_edge_step_append:
  "mermaid_edge_step edge acc = acc @ mermaid_edge_step edge []"
  by (simp add: mermaid_edge_step_def Let_def)

lemma fold_mermaid_node_step:
  "fold mermaid_node_step nodes acc = acc @ concat (map (\<lambda>n. mermaid_node_step n []) nodes)"
proof (induction nodes arbitrary: acc)
  case Nil
  show ?case by simp
next
  case (Cons n ns)
  have "fold mermaid_node_step (n # ns) acc = fold mermaid_node_step ns (mermaid_node_step n acc)"
    by simp
  also have "\<dots> = mermaid_node_step n acc @ concat (map (\<lambda>n. mermaid_node_step n []) ns)"
    by (rule Cons.IH)
  also have "mermaid_node_step n acc = acc @ mermaid_node_step n []"
    by (rule mermaid_node_step_append)
  finally show ?case by simp
qed

lemma fold_mermaid_edge_step:
  "fold mermaid_edge_step edges acc = acc @ concat (map (\<lambda>e. mermaid_edge_step e []) edges)"
proof (induction edges arbitrary: acc)
  case Nil
  show ?case by simp
next
  case (Cons e es)
  have "fold mermaid_edge_step (e # es) acc = fold mermaid_edge_step es (mermaid_edge_step e acc)"
    by simp
  also have "\<dots> = mermaid_edge_step e acc @ concat (map (\<lambda>e. mermaid_edge_step e []) es)"
    by (rule Cons.IH)
  also have "mermaid_edge_step e acc = acc @ mermaid_edge_step e []"
    by (rule mermaid_edge_step_append)
  finally show ?case by simp
qed

lemma exportToMermaid_concat:
  \<open>nodes \<noteq> [] \<Longrightarrow>
   exportToMermaid nodes edges =
     Some (''graph TD\<newline>'' @ concat (map (\<lambda>n. mermaid_node_step n []) nodes)
             @ concat (map (\<lambda>e. mermaid_edge_step e []) edges))\<close>
  by (simp add: exportToMermaid_def fold_mermaid_node_step fold_mermaid_edge_step)

lemma mermaid_node_line:
  \<open>mermaid_node_step n [] =
     ''    '' @ rf_id n
       @ (if nd_isAction (rf_data n) = Some True
          then ''["'' @ nd_text (rf_data n) @ ''"]''
          else ''{"'' @ nd_text (rf_data n) @ ''"}'')
       @ ''\<newline>''\<close>
  by (simp add: mermaid_node_step_def Let_def truthy_bool_iff)

lemma mermaid_edge_line:
  \<open>mermaid_edge_step e [] =
     ''    '' @ re_source e
       @ (case re_label e of
            None \<Rightarrow> '' --> ''
          | Some l \<Rightarrow> if l = [] then '' --> '' else '' -->|"'' @ l @ ''" '')
       @ re_target e @ ''\<newline>''\<close>
  by (simp add: mermaid_edge_step_def Let_def split: option.splits)

lemma exportToBpmn_concat:
  \<open>nodes \<noteq> [] \<Longrightarrow>
   exportToBpmn fmt nodes edges =
     Some (bpmn_prolog
       @ ''  <bpmn:process id="Process_1" isExecutable="true">\<newline>''
       @ concat (map (\<lambda>n. bpmn_process_node n @ ''\<newline>'') nodes)
       @ (if edges = [] then ''\<newline>''
          else concat (map (\<lambda>e. bpmn_sequence_flow e @ ''\<newline>'') edges))
       @ ''  </bpmn:process>\<newline>''
       @ ''  <bpmndi:BPMNDiagram id="BPMNDiagram_1">\<newline>''
       @ ''    <bpmndi:BPMNPlane id="BPMNPlane_1" bpmnElement="Process_1">\<newline>''
       @ join ''\<newline>'' (map (bpmn_shape fmt) nodes) @ ''\<newline>''
       @ join ''\<newline>'' (map bpmn_edge edges) @ ''\<newline>''
       @ bpmn_epilog)\<close>
proof -
  assume ne: "nodes \<noteq> []"
  then have n: "join ''\<newline>'' (map bpmn_process_node nodes) @ ''\<newline>'' =
      concat (map (\<lambda>n. bpmn_process_node n @ ''\<newline>'') nodes)"
    using join_terminated [of "map bpmn_process_node nodes" "''\<newline>''"]
    by (simp add: comp_def)
  have e: "join ''\<newline>'' (map bpmn_sequence_flow edges) @ ''\<newline>'' =
      (if edges = [] then ''\<newline>''
       else concat (map (\<lambda>e. bpmn_sequence_flow e @ ''\<newline>'') edges))"
    using join_terminated [of "map bpmn_sequence_flow edges" "''\<newline>''"]
    by (simp add: comp_def)
  have \<open>exportToBpmn fmt nodes edges =
     Some (bpmn_prolog
       @ ''  <bpmn:process id="Process_1" isExecutable="true">\<newline>''
       @ (join ''\<newline>'' (map bpmn_process_node nodes) @ ''\<newline>'')
       @ (join ''\<newline>'' (map bpmn_sequence_flow edges) @ ''\<newline>'')
       @ ''  </bpmn:process>\<newline>''
       @ ''  <bpmndi:BPMNDiagram id="BPMNDiagram_1">\<newline>''
       @ ''    <bpmndi:BPMNPlane id="BPMNPlane_1" bpmnElement="Process_1">\<newline>''
       @ join ''\<newline>'' (map (bpmn_shape fmt) nodes) @ ''\<newline>''
       @ join ''\<newline>'' (map bpmn_edge edges) @ ''\<newline>''
       @ bpmn_epilog)\<close>
    using ne by (simp add: exportToBpmn_def)
  then show ?thesis
    by (simp only: n e)
qed

text \<open>
  C6.  For a non-empty node list the Mermaid text is the line \<open>graph TD\<close>, then one line
  per node in order, \<open>id["text"]\<close> when \<open>data.isAction\<close> is true and \<open>id{"text"}\<close> otherwise,
  then one line per edge in order, \<open>source -->|"label" target\<close> when the edge has a label
  (one that is present and not empty, as the source tests it) and \<open>source --> target\<close> when
  it has none.  Every line is indented by four spaces and ends with a line feed.
\<close>

theorem exportToMermaid_text:
  \<open>nodes \<noteq> [] \<longrightarrow>
   exportToMermaid nodes edges =
     Some (''graph TD\<newline>''
       @ concat (map (\<lambda>n. ''    '' @ rf_id n
                           @ (if nd_isAction (rf_data n) = Some True
                              then ''["'' @ nd_text (rf_data n) @ ''"]''
                              else ''{"'' @ nd_text (rf_data n) @ ''"}'')
                           @ ''\<newline>'') nodes)
       @ concat (map (\<lambda>e. ''    '' @ re_source e
                           @ (case re_label e of
                                None \<Rightarrow> '' --> ''
                              | Some l \<Rightarrow> if l = [] then '' --> '' else '' -->|"'' @ l @ ''" '')
                           @ re_target e @ ''\<newline>'') edges))\<close>
proof
  assume "nodes \<noteq> []"
  then have "exportToMermaid nodes edges =
     Some (''graph TD\<newline>'' @ concat (map (\<lambda>n. mermaid_node_step n []) nodes)
             @ concat (map (\<lambda>e. mermaid_edge_step e []) edges))"
    by (rule exportToMermaid_concat)
  then show \<open>exportToMermaid nodes edges =
     Some (''graph TD\<newline>''
       @ concat (map (\<lambda>n. ''    '' @ rf_id n
                           @ (if nd_isAction (rf_data n) = Some True
                              then ''["'' @ nd_text (rf_data n) @ ''"]''
                              else ''{"'' @ nd_text (rf_data n) @ ''"}'')
                           @ ''\<newline>'') nodes)
       @ concat (map (\<lambda>e. ''    '' @ re_source e
                           @ (case re_label e of
                                None \<Rightarrow> '' --> ''
                              | Some l \<Rightarrow> if l = [] then '' --> '' else '' -->|"'' @ l @ ''" '')
                           @ re_target e @ ''\<newline>'') edges))\<close>
    by (simp only: mermaid_node_line mermaid_edge_line)
qed

theorem exportToMermaid_text_witness:
  \<open>reactFlowNodes example_response \<noteq> [] \<and>
   exportToMermaid (reactFlowNodes example_response) (reactFlowEdges example_response) =
     Some (''graph TD\<newline>''
           @ ''    n1["Register"]\<newline>''
           @ ''    n2{"Complete?"}\<newline>''
           @ ''    n1 --> n2\<newline>''
           @ ''    n2 -->|"Yes" n1\<newline>'')\<close>
proof -
  let ?N = "reactFlowNodes example_response" and ?E = "reactFlowEdges example_response"
  have ne: "?N \<noteq> []"
    by (simp add: example_graph)
  note out = exportToMermaid_text [where nodes = ?N and edges = ?E, THEN mp, OF ne]
  show ?thesis
    unfolding out
    by (simp add: example_graph reactFlowNode_def reactFlowEdge_def Let_def truthy_def)
qed

text \<open>
  C5.  For a non-empty node list the BPMN document opens one \<open>bpmn:process\<close> element,
  which holds one line per node in order, a \<open>bpmn:task\<close> when \<open>data.isAction\<close> is true and
  a \<open>bpmn:exclusiveGateway\<close> otherwise, with the node's id as \<open>id\<close> and \<open>data.text\<close> as
  \<open>name\<close>, then one \<open>bpmn:sequenceFlow\<close> line per edge in order with the edge's source as
  \<open>sourceRef\<close> and its target as \<open>targetRef\<close> (an empty line when there is no edge), and
  then closes the element; the diagram section follows.
\<close>

theorem exportToBpmn_process:
  \<open>nodes \<noteq> [] \<longrightarrow>
   exportToBpmn fmt nodes edges =
     Some (bpmn_prolog
       @ ''  <bpmn:process id="Process_1" isExecutable="true">\<newline>''
       @ concat (map (\<lambda>n. ''    <''
                           @ (if nd_isAction (rf_data n) = Some True
                              then ''bpmn:task'' else ''bpmn:exclusiveGateway'')
                           @ '' id="'' @ rf_id n @ ''" name="'' @ nd_text (rf_data n)
                           @ ''" />\<newline>'') nodes)
       @ (if edges = [] then ''\<newline>''
          else concat (map (\<lambda>e. ''    <bpmn:sequenceFlow id="'' @ re_id e
                                  @ ''" sourceRef="'' @ re_source e
                                  @ ''" targetRef="'' @ re_target e
                                  @ ''" />\<newline>'') edges))
       @ ''  </bpmn:process>\<newline>''
       @ ''  <bpmndi:BPMNDiagram id="BPMNDiagram_1">\<newline>''
       @ ''    <bpmndi:BPMNPlane id="BPMNPlane_1" bpmnElement="Process_1">\<newline>''
       @ join ''\<newline>'' (map (bpmn_shape fmt) nodes) @ ''\<newline>''
       @ join ''\<newline>'' (map bpmn_edge edges) @ ''\<newline>''
       @ bpmn_epilog)\<close>
proof
  assume "nodes \<noteq> []"
  from exportToBpmn_concat [OF this, of fmt edges]
  show \<open>exportToBpmn fmt nodes edges =
     Some (bpmn_prolog
       @ ''  <bpmn:process id="Process_1" isExecutable="true">\<newline>''
       @ concat (map (\<lambda>n. ''    <''
                           @ (if nd_isAction (rf_data n) = Some True
                              then ''bpmn:task'' else ''bpmn:exclusiveGateway'')
                           @ '' id="'' @ rf_id n @ ''" name="'' @ nd_text (rf_data n)
                           @ ''" />\<newline>'') nodes)
       @ (if edges = [] then ''\<newline>''
          else concat (map (\<lambda>e. ''    <bpmn:sequenceFlow id="'' @ re_id e
                                  @ ''" sourceRef="'' @ re_source e
                                  @ ''" targetRef="'' @ re_target e
                                  @ ''" />\<newline>'') edges))
       @ ''  </bpmn:process>\<newline>''
       @ ''  <bpmndi:BPMNDiagram id="BPMNDiagram_1">\<newline>''
       @ ''    <bpmndi:BPMNPlane id="BPMNPlane_1" bpmnElement="Process_1">\<newline>''
       @ join ''\<newline>'' (map (bpmn_shape fmt) nodes) @ ''\<newline>''
       @ join ''\<newline>'' (map bpmn_edge edges) @ ''\<newline>''
       @ bpmn_epilog)\<close>
    by (simp add: bpmn_process_node_def bpmn_sequence_flow_def Let_def truthy_bool_iff)
qed

theorem exportToBpmn_process_witness:
  \<open>reactFlowNodes example_response \<noteq> [] \<and>
   prefix
     (bpmn_prolog
      @ ''  <bpmn:process id="Process_1" isExecutable="true">\<newline>''
      @ ''    <bpmn:task id="n1" name="Register" />\<newline>''
      @ ''    <bpmn:exclusiveGateway id="n2" name="Complete?" />\<newline>''
      @ ''    <bpmn:sequenceFlow id="e-n1-n2-0" sourceRef="n1" targetRef="n2" />\<newline>''
      @ ''    <bpmn:sequenceFlow id="e-n2-n1-1" sourceRef="n2" targetRef="n1" />\<newline>''
      @ ''  </bpmn:process>\<newline>'')
     (the (exportToBpmn show_integer (reactFlowNodes example_response)
        (reactFlowEdges example_response)))\<close>
proof -
  let ?N = "reactFlowNodes example_response" and ?E = "reactFlowEdges example_response"
  have ne: "?N \<noteq> []"
    by (simp add: example_graph)
  note out = exportToBpmn_process
    [where nodes = ?N and edges = ?E and fmt = show_integer, THEN mp, OF ne]
  show ?thesis
    unfolding out option.sel
    by (simp add: example_graph reactFlowNode_def reactFlowEdge_def Let_def truthy_def
        index_to_string_digits)
qed

section \<open>No escaping in the exports\<close>

lemma sublist_concat_map:
  "x \<in> set xs \<Longrightarrow> sublist (f x) (concat (map f xs))"
proof -
  assume "x \<in> set xs"
  then obtain ys zs where "xs = ys @ x # zs"
    by (auto simp: in_set_conv_decomp)
  then have "concat (map f xs) = concat (map f ys) @ f x @ concat (map f zs)"
    by simp
  then show ?thesis
    by (simp only: sublist_appendI)
qed

lemma sublist_in_middle:
  "sublist xs ys \<Longrightarrow> sublist xs (ps @ ys @ ss)"
proof -
  assume "sublist xs ys"
  then obtain p s where "ys = p @ xs @ s"
    by (auto simp: sublist_def)
  then have "ps @ ys @ ss = (ps @ p) @ xs @ (s @ ss)"
    by simp
  then show ?thesis
    by (simp only: sublist_appendI)
qed

lemma sublist_in_middle2:
  "sublist xs ys \<Longrightarrow> sublist xs (p1 @ p2 @ ys @ ss)"
  using sublist_in_middle [of xs ys "p1 @ p2" ss] by simp

lemma bpmn_output_has_name:
  assumes "nodes \<noteq> []" and "n \<in> set nodes"
  shows \<open>\<exists>b. exportToBpmn fmt nodes edges = Some b \<and>
             sublist (''name="'' @ nd_text (rf_data n) @ ''"'') b\<close>
proof -
  let ?line = "\<lambda>n. bpmn_process_node n @ ''\<newline>''"
  have \<open>bpmn_process_node n @ ''\<newline>'' =
      (''    <'' @ (if truthy_bool (nd_isAction (rf_data n))
                      then ''bpmn:task'' else ''bpmn:exclusiveGateway'')
        @ '' id="'' @ rf_id n @ ''" '')
      @ (''name="'' @ nd_text (rf_data n) @ ''"'') @ '' />\<newline>''\<close>
    by (simp add: bpmn_process_node_def Let_def)
  then have \<open>sublist (''name="'' @ nd_text (rf_data n) @ ''"'') (?line n)\<close>
    by (simp only: sublist_appendI)
  moreover have "sublist (?line n) (concat (map ?line nodes))"
    using assms(2) by (rule sublist_concat_map)
  ultimately have \<open>sublist (''name="'' @ nd_text (rf_data n) @ ''"'') (concat (map ?line nodes))\<close>
    by (rule sublist_order.order_trans)
  then have sub: \<open>sublist (''name="'' @ nd_text (rf_data n) @ ''"'')
      (bpmn_prolog
       @ ''  <bpmn:process id="Process_1" isExecutable="true">\<newline>''
       @ concat (map (\<lambda>n. bpmn_process_node n @ ''\<newline>'') nodes)
       @ (if edges = [] then ''\<newline>''
          else concat (map (\<lambda>e. bpmn_sequence_flow e @ ''\<newline>'') edges))
       @ ''  </bpmn:process>\<newline>''
       @ ''  <bpmndi:BPMNDiagram id="BPMNDiagram_1">\<newline>''
       @ ''    <bpmndi:BPMNPlane id="BPMNPlane_1" bpmnElement="Process_1">\<newline>''
       @ join ''\<newline>'' (map (bpmn_shape fmt) nodes) @ ''\<newline>''
       @ join ''\<newline>'' (map bpmn_edge edges) @ ''\<newline>''
       @ bpmn_epilog)\<close>
    by (rule sublist_in_middle2)
  show ?thesis
    by (rule exI, rule conjI, rule exportToBpmn_concat [OF assms(1)], rule sub)
qed

lemma mermaid_output_has_text:
  assumes "nodes \<noteq> []" and "n \<in> set nodes"
  shows \<open>\<exists>m. exportToMermaid nodes edges = Some m \<and>
             sublist (''"'' @ nd_text (rf_data n) @ ''"'') m\<close>
proof -
  let ?line = "\<lambda>n. mermaid_node_step n []"
  have \<open>mermaid_node_step n [] =
      (''    '' @ rf_id n @ (if truthy_bool (nd_isAction (rf_data n)) then ''['' else ''{''))
      @ (''"'' @ nd_text (rf_data n) @ ''"'')
      @ ((if truthy_bool (nd_isAction (rf_data n)) then '']'' else ''}'') @ ''\<newline>'')\<close>
    by (simp add: mermaid_node_step_def Let_def)
  then have \<open>sublist (''"'' @ nd_text (rf_data n) @ ''"'') (?line n)\<close>
    by (simp only: sublist_appendI)
  moreover have "sublist (?line n) (concat (map ?line nodes))"
    using assms(2) by (rule sublist_concat_map)
  ultimately have \<open>sublist (''"'' @ nd_text (rf_data n) @ ''"'') (concat (map ?line nodes))\<close>
    by (rule sublist_order.order_trans)
  then have sub: \<open>sublist (''"'' @ nd_text (rf_data n) @ ''"'')
      (''graph TD\<newline>'' @ concat (map (\<lambda>n. mermaid_node_step n []) nodes)
        @ concat (map (\<lambda>e. mermaid_edge_step e []) edges))\<close>
    by (rule sublist_in_middle)
  show ?thesis
    by (rule exI, rule conjI, rule exportToMermaid_concat [OF assms(1)], rule sub)
qed

lemma mermaid_output_has_label:
  assumes "nodes \<noteq> []" and "e \<in> set edges" and "re_label e = Some l" and "l \<noteq> []"
  shows \<open>\<exists>m. exportToMermaid nodes edges = Some m \<and> sublist (''|"'' @ l @ ''"'') m\<close>
proof -
  let ?line = "\<lambda>e. mermaid_edge_step e []"
  from assms(3,4) have \<open>mermaid_edge_step e [] =
      (''    '' @ re_source e @ '' -->'') @ (''|"'' @ l @ ''"'')
      @ ('' '' @ re_target e @ ''\<newline>'')\<close>
    by (simp add: mermaid_edge_step_def Let_def)
  then have \<open>sublist (''|"'' @ l @ ''"'') (?line e)\<close>
    by (simp only: sublist_appendI)
  moreover have "sublist (?line e) (concat (map ?line edges))"
    using assms(2) by (rule sublist_concat_map)
  ultimately have \<open>sublist (''|"'' @ l @ ''"'') (concat (map ?line edges))\<close>
    by (rule sublist_order.order_trans)
  then have \<open>sublist (''|"'' @ l @ ''"'')
      (''graph TD\<newline>'' @ concat (map (\<lambda>n. mermaid_node_step n []) nodes)
        @ concat (map ?line edges) @ [])\<close>
    by (rule sublist_in_middle2)
  then have sub: \<open>sublist (''|"'' @ l @ ''"'')
      (''graph TD\<newline>'' @ concat (map (\<lambda>n. mermaid_node_step n []) nodes)
        @ concat (map ?line edges))\<close>
    by (simp only: append_Nil2)
  show ?thesis
    by (rule exI, rule conjI, rule exportToMermaid_concat [OF assms(1)], rule sub)
qed

lemma bpmn_ignores_labels:
  "exportToBpmn fmt nodes (map (\<lambda>e. e\<lparr>re_label := relabel e\<rparr>) edges) =
   exportToBpmn fmt nodes edges"
proof -
  have "map bpmn_sequence_flow (map (\<lambda>e. e\<lparr>re_label := relabel e\<rparr>) edges) =
      map bpmn_sequence_flow edges"
    by (simp add: bpmn_sequence_flow_def)
  moreover have "map bpmn_edge (map (\<lambda>e. e\<lparr>re_label := relabel e\<rparr>) edges) =
      map bpmn_edge edges"
    by (simp add: bpmn_edge_def)
  ultimately show ?thesis
    by (simp only: exportToBpmn_def)
qed

text \<open>
  C10, as stated, also has the BPMN exporter insert every edge label.  It does not: the
  \<open>bpmn:sequenceFlow\<close> template carries the id, the source and the target only.  In the
  example the second edge is labelled \<open>Yes\<close>, and the BPMN document does not contain it.
\<close>

theorem bpmn_omits_edge_label_counterexample:
  "reactFlowNodes example_response \<noteq> [] \<and>
   reactFlowEdges example_response ! 1 \<in> set (reactFlowEdges example_response) \<and>
   re_label (reactFlowEdges example_response ! 1) = Some ''Yes'' \<and>
   \<not> sublist ''Yes''
       (the (exportToBpmn show_integer (reactFlowNodes example_response)
          (reactFlowEdges example_response)))"
proof -
  let ?out = "the (exportToBpmn show_integer (reactFlowNodes example_response)
          (reactFlowEdges example_response))"
  have "CHR ''Y'' \<notin> set ?out"
    by (simp add: exportToBpmn_def example_graph reactFlowNode_def reactFlowEdge_def Let_def
        truthy_def truthy_bool_def index_to_string_digits bpmn_prolog_def bpmn_epilog_def
        bpmn_process_node_def bpmn_sequence_flow_def bpmn_shape_def bpmn_edge_def
        template_number_def show_integer_def)
  moreover have "CHR ''Y'' \<in> set ''Yes''"
    by simp
  ultimately have "\<not> sublist ''Yes'' ?out"
    using set_mono_sublist by blast
  then show ?thesis
    by (simp add: example_graph reactFlowEdge_def)
qed

text \<open>
  C10, amended.  For every node of a non-empty node list, whatever characters its text
  holds, the BPMN document contains \<open>name="text"\<close> and the Mermaid text contains \<open>"text"\<close>
  with the text character for character; and for every edge with a non-empty label the
  Mermaid text contains \<open>|"label"\<close> with the label character for character.  The BPMN
  exporter writes no edge label: its output stays the same when the labels of the edges
  are replaced by any others.
\<close>

theorem exporters_embed_verbatim:
  \<open>(nodes \<noteq> [] \<and> n \<in> set nodes \<longrightarrow>
     (\<exists>b m. exportToBpmn fmt nodes edges = Some b \<and>
            exportToMermaid nodes edges = Some m \<and>
            sublist (''name="'' @ nd_text (rf_data n) @ ''"'') b \<and>
            sublist (''"'' @ nd_text (rf_data n) @ ''"'') m \<and>
            (e \<in> set edges \<and> re_label e = Some l \<and> l \<noteq> [] \<longrightarrow>
               sublist (''|"'' @ l @ ''"'') m))) \<and>
   exportToBpmn fmt nodes (map (\<lambda>e. e\<lparr>re_label := relabel e\<rparr>) edges) =
     exportToBpmn fmt nodes edges\<close>
proof (intro conjI impI)
  show "exportToBpmn fmt nodes (map (\<lambda>e. e\<lparr>re_label := relabel e\<rparr>) edges) =
     exportToBpmn fmt nodes edges"
    by (rule bpmn_ignores_labels)
next
  assume a: "nodes \<noteq> [] \<and> n \<in> set nodes"
  then obtain b where b: "exportToBpmn fmt nodes edges = Some b"
    \<open>sublist (''name="'' @ nd_text (rf_data n) @ ''"'') b\<close>
    using bpmn_output_has_name by blast
  from a obtain m where m: "exportToMermaid nodes edges = Some m"
    \<open>sublist (''"'' @ nd_text (rf_data n) @ ''"'') m\<close>
    using mermaid_output_has_text by blast
  have \<open>e \<in> set edges \<and> re_label e = Some l \<and> l \<noteq> [] \<longrightarrow> sublist (''|"'' @ l @ ''"'') m\<close>
  proof
    assume "e \<in> set edges \<and> re_label e = Some l \<and> l \<noteq> []"
    with a mermaid_output_has_label [of nodes e edges l]
    obtain m' where "exportToMermaid nodes edges = Some m'" \<open>sublist (''|"'' @ l @ ''"'') m'\<close>
      by blast
    with m(1) show \<open>sublist (''|"'' @ l @ ''"'') m\<close>
      by simp
  qed
  with b m show \<open>\<exists>b m. exportToBpmn fmt nodes edges = Some b \<and>
            exportToMermaid nodes edges = Some m \<and>
            sublist (''name="'' @ nd_text (rf_data n) @ ''"'') b \<and>
            sublist (''"'' @ nd_text (rf_data n) @ ''"'') m \<and>
            (e \<in> set edges \<and> re_label e = Some l \<and> l \<noteq> [] \<longrightarrow>
               sublist (''|"'' @ l @ ''"'') m)\<close>
    by blast
qed

theorem exporters_embed_verbatim_witness:
  \<open>[quoted_node] \<noteq> [] \<and> quoted_node \<in> set [quoted_node] \<and>
   quoted_edge \<in> set [quoted_edge] \<and> re_label quoted_edge = Some ''a<"b"'' \<and>
   nd_text (rf_data quoted_node) = ''Say "hi" & <go>'' \<and>
   exportToBpmn show_integer [quoted_node] [quoted_edge] \<noteq> None \<and>
   exportToMermaid [quoted_node] [quoted_edge] \<noteq> None \<and>
   sublist ''name="Say "hi" & <go>"''
     (the (exportToBpmn show_integer [quoted_node] [quoted_edge])) \<and>
   sublist ''"Say "hi" & <go>"'' (the (exportToMermaid [quoted_node] [quoted_edge])) \<and>
   sublist ''|"a<"b""'' (the (exportToMermaid [quoted_node] [quoted_edge])) \<and>
   exportToBpmn show_integer [quoted_node] [quoted_edge\<lparr>re_label := Some ''other''\<rparr>] =
     exportToBpmn show_integer [quoted_node] [quoted_edge]\<close>
proof -
  have n: "[quoted_node] \<noteq> [] \<and> quoted_node \<in> set [quoted_node]"
    by simp
  have t: \<open>nd_text (rf_data quoted_node) = ''Say "hi" & <go>''\<close>
    by (simp add: quoted_node_def reactFlowNode_def Let_def)
  have e: \<open>quoted_edge \<in> set [quoted_edge] \<and> re_label quoted_edge = Some ''a<"b"'' \<and>
      ''a<"b"'' \<noteq> []\<close>
    by (simp add: quoted_edge_def reactFlowEdge_def)
  from exporters_embed_verbatim
    [where nodes = "[quoted_node]" and n = quoted_node and edges = "[quoted_edge]"
       and e = quoted_edge and l = \<open>''a<"b"''\<close> and fmt = show_integer
       and relabel = "\<lambda>e. Some ''other''", THEN conjunct1, THEN mp, OF n]
  obtain b m where b: "exportToBpmn show_integer [quoted_node] [quoted_edge] = Some b"
    and m: "exportToMermaid [quoted_node] [quoted_edge] = Some m"
    and 1: \<open>sublist (''name="'' @ nd_text (rf_data quoted_node) @ ''"'') b\<close>
    and 2: \<open>sublist (''"'' @ nd_text (rf_data quoted_node) @ ''"'') m\<close>
    and 3: \<open>quoted_edge \<in> set [quoted_edge] \<and> re_label quoted_edge = Some ''a<"b"'' \<and>
      ''a<"b"'' \<noteq> [] \<longrightarrow> sublist (''|"'' @ ''a<"b"'' @ ''"'') m\<close>
    by (elim exE conjE)
  from 3 [THEN mp, OF e] have 4: \<open>sublist ''|"a<"b""'' m\<close>
    by simp
  from 1 2 have 5: \<open>sublist ''name="Say "hi" & <go>"'' b\<close> \<open>sublist ''"Say "hi" & <go>"'' m\<close>
    by (simp_all add: t)
  have 6: "exportToBpmn show_integer [quoted_node] [quoted_edge\<lparr>re_label := Some ''other''\<rparr>] =
      exportToBpmn show_integer [quoted_node] [quoted_edge]"
    using exporters_embed_verbatim
      [where nodes = "[quoted_node]" and edges = "[quoted_edge]" and fmt = show_integer
         and relabel = "\<lambda>e. Some ''other''", THEN conjunct2]
    by simp
  from n e t b m 4 5 6 show ?thesis
    by simp
qed

section \<open>The highlight range\<close>

lemma trim_empty_iff: "trim t = [] \<longleftrightarrow> (\<forall>c \<in> set t. is_whitespace c)"
proof
  assume "trim t = []"
  then have all: "\<forall>c \<in> set (dropWhile is_whitespace t). is_whitespace c"
    by (simp add: trim_def)
  have "dropWhile is_whitespace t = []"
  proof (rule ccontr)
    assume ne: "dropWhile is_whitespace t \<noteq> []"
    then have "\<not> is_whitespace (hd (dropWhile is_whitespace t))"
      by (rule hd_dropWhile)
    moreover from ne have "hd (dropWhile is_whitespace t) \<in> set (dropWhile is_whitespace t)"
      by simp
    ultimately show False
      using all by blast
  qed
  then show "\<forall>c \<in> set t. is_whitespace c"
    by simp
next
  assume "\<forall>c \<in> set t. is_whitespace c"
  then show "trim t = []"
    unfolding trim_def by (auto dest: set_dropWhileD)
qed

lemma sublist_trim: "sublist (trim s) s"
proof -
  let ?u = "dropWhile is_whitespace s"
  have "suffix (dropWhile is_whitespace (rev ?u)) (rev ?u)"
    by (rule suffix_dropWhile)
  then have "prefix (trim s) ?u"
    by (simp add: suffix_to_prefix trim_def)
  moreover have "suffix ?u s"
    by (rule suffix_dropWhile)
  ultimately show ?thesis
    unfolding sublist_altdef' by blast
qed

lemma sublist_split_sentences:
  "p \<in> set (split_sentences s) \<Longrightarrow> sublist p s"
proof (induction s arbitrary: p rule: split_sentences.induct)
  case (1 s)
  let ?piece = "takeWhile (\<lambda>c. \<not> is_sentence_end c) s"
  let ?rest = "dropWhile (\<lambda>c. \<not> is_sentence_end c) s"
  have first: "sublist ?piece s"
    by (simp add: takeWhile_is_prefix)
  have eq: "split_sentences s =
      (if ?rest = [] then [?piece]
       else ?piece # split_sentences (dropWhile is_sentence_end ?rest))"
    by (subst split_sentences.simps) (simp add: Let_def)
  show ?case
  proof (cases "?rest = []")
    case True
    with "1.prems" have "p = ?piece"
      unfolding eq by simp
    with first show ?thesis by simp
  next
    case False
    with "1.prems" have "p = ?piece \<or> p \<in> set (split_sentences (dropWhile is_sentence_end ?rest))"
      unfolding eq by (auto split: if_splits)
    then show ?thesis
    proof
      assume "p = ?piece"
      with first show ?thesis by simp
    next
      assume "p \<in> set (split_sentences (dropWhile is_sentence_end ?rest))"
      with False have "sublist p (dropWhile is_sentence_end ?rest)"
        by (intro "1.IH") simp_all
      moreover have "suffix (dropWhile is_sentence_end ?rest) s"
        using suffix_dropWhile [of is_sentence_end ?rest]
          suffix_dropWhile [of "\<lambda>c. \<not> is_sentence_end c" s]
        by (rule suffix_order.order_trans)
      ultimately show ?thesis
        using sublist_order.order_trans suffix_imp_sublist by blast
    qed
  qed
qed

lemma indexOf_from_bounds:
  "sublist needle s \<Longrightarrow>
   int k \<le> indexOf_from k s needle \<and>
   indexOf_from k s needle + int (length needle) \<le> int k + int (length s)"
proof (induction s arbitrary: k)
  case Nil
  then show ?case by simp
next
  case (Cons c cs)
  show ?case
  proof (cases "prefix needle (c # cs)")
    case True
    then have "length needle \<le> length (c # cs)"
      by (rule prefix_length_le)
    with True show ?thesis by simp
  next
    case False
    with Cons.prems have "sublist needle cs"
      by (simp add: sublist_Cons_right)
    from Cons.IH [OF this, of "Suc k"] False show ?thesis
      by simp
  qed
qed

lemma indexOf_bounds:
  "sublist needle s \<Longrightarrow>
   0 \<le> indexOf s needle \<and> indexOf s needle + int (length needle) \<le> int (length s)"
  using indexOf_from_bounds [of needle s 0] by (simp add: indexOf_def)

lemma sentences_of_bounds:
  assumes "x \<in> set (sentences_of fullText)"
  shows "0 \<le> sn_startPos x \<and> sn_startPos x \<le> sn_endPos x \<and>
         sn_endPos x \<le> int (length fullText)"
proof -
  from assms obtain p where p: "p \<in> set (split_sentences fullText)"
    and x: "x = to_sentence fullText p"
    by (auto simp: sentences_of_def)
  have "sublist (trim p) p"
    by (rule sublist_trim)
  moreover from p have "sublist p fullText"
    by (rule sublist_split_sentences)
  ultimately have "sublist (trim p) fullText"
    by (rule sublist_order.order_trans)
  from indexOf_bounds [OF this] show ?thesis
    by (simp add: x to_sentence_def Let_def)
qed

lemma substring_partition:
  assumes "0 \<le> a" and "a \<le> b" and "b \<le> int (length s)"
  shows "substring s 0 a @ substring s a b @ substring s b (int (length s)) = s"
proof -
  from assms have 1: "substring s 0 a = take (nat a) s"
    by (simp add: substring_def Let_def min_def max_def)
  from assms have 2: "substring s a b = take (nat b - nat a) (drop (nat a) s)"
    by (simp add: substring_def Let_def min_def max_def nat_diff_distrib)
  from assms have 3: "substring s b (int (length s)) = drop (nat b) s"
    by (simp add: substring_def Let_def min_def max_def)
  from assms have le: "nat a \<le> nat b"
    by simp
  have "take (nat b - nat a) (drop (nat a) s) @ drop (nat b) s = drop (nat a) s"
    using le
    by (metis append_take_drop_id drop_drop le_add_diff_inverse2)
  then show ?thesis
    by (simp add: 1 2 3)
qed

lemma findHighlightRange_bounds:
  assumes "\<forall>sentences pattern. \<forall>r \<in> set (fuse sentences pattern). fr_item r \<in> set sentences"
    and "findHighlightRange fuse fullText nodeText = Some (start, end)"
  shows "0 \<le> start \<and> start \<le> end \<and> end \<le> int (length fullText)"
proof -
  from assms(2) obtain t r rs where "nodeText = Some t"
    and r: "fuse (sentences_of fullText) (trim t) = r # rs"
    and se: "start = sn_startPos (fr_item r)" "end = sn_endPos (fr_item r)"
    by (auto simp: findHighlightRange_def Let_def
        split: option.splits if_splits list.splits)
  from assms(1) r have "fr_item r \<in> set (sentences_of fullText)"
    by (metis list.set_intros(1))
  from sentences_of_bounds [OF this] se show ?thesis
    by simp
qed

text \<open>
  C9.  \<open>findHighlightRange\<close> returns \<open>null\<close> when the node text is undefined or consists
  of white space only.  For a search that returns items of the collection it was given (as
  Fuse does), whenever \<open>findHighlightRange\<close> returns \<open>[start, end]\<close> the bounds satisfy
  \<open>0 \<le> start \<le> end \<le> fullText.length\<close>, so that the three \<open>substring\<close> calls of the
  overlay neither clamp nor swap their arguments: the text before the match, the match and
  the text after it make up the full text.
\<close>

theorem findHighlightRange_in_range:
  "(nodeText = None \<or> (\<exists>t. nodeText = Some t \<and> (\<forall>c \<in> set t. is_whitespace c)) \<longrightarrow>
      findHighlightRange fuse fullText nodeText = None) \<and>
   ((\<forall>sentences pattern. \<forall>r \<in> set (fuse sentences pattern). fr_item r \<in> set sentences) \<and>
    findHighlightRange fuse fullText nodeText = Some (start, end) \<longrightarrow>
      0 \<le> start \<and> start \<le> end \<and> end \<le> int (length fullText) \<and>
      substring fullText 0 start @ substring fullText start end
        @ substring fullText end (int (length fullText)) = fullText) \<and>
   ((\<forall>sentences pattern. \<forall>r \<in> set (fuse sentences pattern). fr_item r \<in> set sentences) \<and>
    highlight_overlay fuse fullText nodes selectedNodeId = Some (before, highlighted, after) \<longrightarrow>
      before @ highlighted @ after = fullText)"
proof (intro conjI impI)
  assume "nodeText = None \<or> (\<exists>t. nodeText = Some t \<and> (\<forall>c \<in> set t. is_whitespace c))"
  then show "findHighlightRange fuse fullText nodeText = None"
    by (auto simp: findHighlightRange_def trim_empty_iff)
next
  assume a: "(\<forall>sentences pattern. \<forall>r \<in> set (fuse sentences pattern). fr_item r \<in> set sentences) \<and>
    findHighlightRange fuse fullText nodeText = Some (start, end)"
  then have b: "0 \<le> start \<and> start \<le> end \<and> end \<le> int (length fullText)"
    using findHighlightRange_bounds [of fuse fullText nodeText start "end"] by blast
  then show "0 \<le> start" "start \<le> end" "end \<le> int (length fullText)"
    by simp_all
  from b show "substring fullText 0 start @ substring fullText start end
        @ substring fullText end (int (length fullText)) = fullText"
    by (simp add: substring_partition)
next
  assume a: "(\<forall>sentences pattern. \<forall>r \<in> set (fuse sentences pattern). fr_item r \<in> set sentences) \<and>
    highlight_overlay fuse fullText nodes selectedNodeId = Some (before, highlighted, after)"
  then obtain nodeText a b
    where f: "findHighlightRange fuse fullText nodeText = Some (a, b)"
      and p: "before = substring fullText 0 a" "highlighted = substring fullText a b"
        "after = substring fullText b (int (length fullText))"
    by (auto simp: highlight_overlay_def Let_def split: if_splits option.splits)
  from a f have "0 \<le> a \<and> a \<le> b \<and> b \<le> int (length fullText)"
    by (rule_tac findHighlightRange_bounds) auto
  then show "before @ highlighted @ after = fullText"
    by (simp add: p substring_partition)
qed

lemma fuse_first_items:
  "\<forall>sentences pattern. \<forall>r \<in> set (fuse_first sentences pattern). fr_item r \<in> set sentences"
  by (auto simp: fuse_first_def split: list.splits)

lemma example_text_first_sentence:
  "findHighlightRange fuse_first example_text (Some ''Register'') = Some (0, 11)"
  by code_simp

theorem findHighlightRange_in_range_witness:
  "findHighlightRange fuse_first example_text None = None \<and>
   findHighlightRange fuse_first example_text (Some [CHR '' '', CHR 0x09]) = None \<and>
   findHighlightRange fuse_first example_text (Some ''Register'') = Some (0, 11) \<and>
   (11::int) \<le> int (length example_text) \<and>
   substring example_text 0 0 @ substring example_text 0 11
     @ substring example_text 11 (int (length example_text)) = example_text \<and>
   highlight_overlay fuse_first example_text (map Placed (reactFlowNodes example_response))
     (Some ''n1'') = Some ([], ''Register it'', ''. Then check!  Done?'') \<and>
   [] @ ''Register it'' @ ''. Then check!  Done?'' = example_text"
proof -
  have blank: "Some [CHR '' '', CHR 0x09] = None \<or>
      (\<exists>t. Some [CHR '' '', CHR 0x09] = Some t \<and> (\<forall>c \<in> set t. is_whitespace c))"
    by (simp add: is_whitespace_def)
  have none: "None = None \<or> (\<exists>t. None = Some t \<and> (\<forall>c \<in> set t. is_whitespace c))"
    by simp
  note found = example_text_first_sentence
  from findHighlightRange_in_range
    [where fuse = fuse_first and fullText = example_text and nodeText = None,
      THEN conjunct1, THEN mp, OF none]
  have 1: "findHighlightRange fuse_first example_text None = None" .
  from findHighlightRange_in_range
    [where fuse = fuse_first and fullText = example_text
       and nodeText = "Some [CHR '' '', CHR 0x09]", THEN conjunct1, THEN mp, OF blank]
  have 2: "findHighlightRange fuse_first example_text (Some [CHR '' '', CHR 0x09]) = None" .
  from findHighlightRange_in_range
    [where fuse = fuse_first and fullText = example_text and nodeText = "Some ''Register''"
       and start = 0 and ?end = 11, THEN conjunct2, THEN conjunct1, THEN mp, OF conjI,
      OF fuse_first_items found]
  have 3: "(0::int) \<le> 0 \<and> (0::int) \<le> 11 \<and> 11 \<le> int (length example_text) \<and>
      substring example_text 0 0 @ substring example_text 0 11
        @ substring example_text 11 (int (length example_text)) = example_text" .
  have shown: "highlight_overlay fuse_first example_text
      (map Placed (reactFlowNodes example_response)) (Some ''n1'')
      = Some ([], ''Register it'', ''. Then check!  Done?'')"
    by code_simp
  from findHighlightRange_in_range
    [where fuse = fuse_first and fullText = example_text
       and nodes = "map Placed (reactFlowNodes example_response)"
       and selectedNodeId = "Some ''n1''" and before = "[]" and highlighted = "''Register it''"
       and after = "''. Then check!  Done?''",
      THEN conjunct2, THEN conjunct2, THEN mp, OF conjI, OF fuse_first_items shown]
  have 4: "[] @ ''Register it'' @ ''. Then check!  Done?'' = example_text" .
  from 1 2 3 4 found shown show ?thesis
    by simp
qed

end
